theory Spec2Isabelle
  imports Complex_Main "HOL-Library.Multiset"
begin

section \<open>Python values and exceptions\<close>

text \<open>
  The dictionaries of the program hold values of several Python types; the exceptions
  the modelled functions raise are values of \<open>exn\<close>, returned as \<open>Inl\<close>.
\<close>

datatype pyval = PyNone | PyStr string | PyInt int | PyDatetime int

datatype exn =
    Exception string
  | ValueError string
  | IndexError
  | TypeError
  | is_pyStationInfoException: pyStationInfoException string
  | CatalogError string
  | IOError string

section \<open>pyEvents.Event\<close>

text \<open>
  What \<open>Event.__init__\<close> reads from its surroundings: the clock, the host name,
  the module of the calling frame (\<open>inspect.getmodule\<close>, None when there is none), the
  name of the calling function (\<open>inspect.stack()[1][3]\<close>), the function names of
  \<open>traceback.extract_stack()[0:-2]\<close> and the lines of
  \<open>traceback.format_stack()[0:-2]\<close>.
\<close>

record event_env =
  ev_now :: int
  ev_node :: string
  ev_module :: "string option"
  ev_caller :: string
  ev_extract_stack :: "string list"
  ev_format_stack :: "string list"

definition valid_fields :: "string list" where
  "valid_fields = [''EventDate'', ''EventType'', ''NetworkCode'', ''StationCode'', ''Year'',
     ''DOY'', ''Description'', ''node'', ''stack'', ''module'']"

definition Event_defaults :: "event_env \<Rightarrow> (string \<rightharpoonup> pyval)" where
  "Event_defaults env =
     [''EventDate'' \<mapsto> PyDatetime (ev_now env),
      ''EventType'' \<mapsto> PyStr ''info'',
      ''NetworkCode'' \<mapsto> PyNone,
      ''StationCode'' \<mapsto> PyNone,
      ''Year'' \<mapsto> PyNone,
      ''DOY'' \<mapsto> PyNone,
      ''Description'' \<mapsto> PyStr '''',
      ''node'' \<mapsto> PyStr (ev_node env),
      ''stack'' \<mapsto> PyNone]"

definition Event_module :: "event_env \<Rightarrow> exn + string" where
  "Event_module env =
     (case ev_module env of
        None \<Rightarrow> Inr (ev_caller env)
      | Some name \<Rightarrow>
          (if ev_extract_stack env = [] then Inl IndexError
           else Inr (name @ ''.'' @ last (ev_extract_stack env))))"

text \<open>The loop over the keyword arguments, in the order the caller wrote them.\<close>

fun Event_kwargs :: "(string \<rightharpoonup> pyval) \<Rightarrow> (string \<times> pyval) list \<Rightarrow> exn + (string \<rightharpoonup> pyval)" where
  "Event_kwargs self [] = Inr self"
| "Event_kwargs self ((key, arg) # kwargs) =
     (if self key = None then Inl (Exception ''Provided key not in list of valid fields.'')
      else Event_kwargs (self(key \<mapsto> arg)) kwargs)"

definition Event_stack :: "event_env \<Rightarrow> (string \<rightharpoonup> pyval) \<Rightarrow> (string \<rightharpoonup> pyval)" where
  "Event_stack env self =
     (if self ''EventType'' = Some (PyStr ''error'')
      then self(''stack'' \<mapsto> PyStr (concat (ev_format_stack env)))
      else self(''stack'' \<mapsto> PyNone))"

definition Event_init :: "event_env \<Rightarrow> (string \<times> pyval) list \<Rightarrow> exn + (string \<rightharpoonup> pyval)" where
  "Event_init env kwargs =
     (case Event_module env of
        Inl e \<Rightarrow> Inl e
      | Inr m \<Rightarrow>
          (case Event_kwargs ((Event_defaults env)(''module'' \<mapsto> PyStr m)) kwargs of
             Inl e \<Rightarrow> Inl e
           | Inr self \<Rightarrow> Inr (Event_stack env self)))"

section \<open>pyDate.Date\<close>

text \<open>
  Modelled from the spec: pyDate.Date, which is not among the sources. A Date is a point
  in time, held here as the number of seconds since the epoch of the modified Julian day;
  its \<open>mjd\<close> is the day number. Python's \<open>==\<close> on two Dates is \<open>date_eq\<close>
  (equality of the day numbers), adding or subtracting an integer moves by whole days, and
  Dates are ordered by day number and then by time of day, which is the order of
  \<open>datetime\<close>. \<open>Date(year=y, doy=d)\<close> and \<open>Date(mjd=m)\<close> are taken at the
  start of their day.
\<close>

datatype date = Date (datetime: int)

definition mjd :: "date \<Rightarrow> int" where
  "mjd d = datetime d div 86400"

definition Date_mjd :: "int \<Rightarrow> date" where
  "Date_mjd m = Date (m * 86400)"

definition Date_yeardoy :: "int \<Rightarrow> int \<Rightarrow> date" where
  "Date_yeardoy y doy =
     Date_mjd (365 * (y - 1) + (y - 1) div 4 - (y - 1) div 100 + (y - 1) div 400 + doy - 678576)"

definition date_eq :: "date \<Rightarrow> date \<Rightarrow> bool" where
  "date_eq a b = (mjd a = mjd b)"

definition date_add :: "date \<Rightarrow> int \<Rightarrow> date" where
  "date_add d n = Date_mjd (mjd d + n)"

definition date_sub :: "date \<Rightarrow> int \<Rightarrow> date" where
  "date_sub d n = Date_mjd (mjd d - n)"

text \<open>\<open>x in xs\<close> on a list of Dates compares with \<open>==\<close>.\<close>

definition date_in :: "date \<Rightarrow> date list \<Rightarrow> bool" where
  "date_in d ds = list_ex (date_eq d) ds"

section \<open>The catalog's rinex tables\<close>

text \<open>
  A row of the tables \<open>rinex\<close> and \<open>rinex_proc\<close>, with the columns the program
  reads. The two session times are timestamps in seconds.
\<close>

record rinex =
  rnx_NetworkCode :: string
  rnx_StationCode :: string
  ObservationYear :: int
  ObservationDOY :: int
  ObservationSTime :: int
  ObservationETime :: int
  rnx_ReceiverSerial :: string
  Filename :: string

definition rinex_date :: "rinex \<Rightarrow> date" where
  "rinex_date rnx = Date_yeardoy (ObservationYear rnx) (ObservationDOY rnx)"

text \<open>
  The query
  \<^verbatim>\<open>SELECT * FROM rinex_proc WHERE "NetworkCode" = net AND "StationCode" = stn AND
    "ObservationSTime" BETWEEN start_date.yyyymmdd() AND end_date.yyyymmdd()
    ORDER BY "ObservationSTime"\<close>:
  \<open>yyyymmdd()\<close> names a day, which the catalog reads as the first instant of that day,
  and \<open>BETWEEN\<close> includes both bounds.
\<close>

definition in_range :: "string \<Rightarrow> string \<Rightarrow> date \<Rightarrow> date \<Rightarrow> rinex \<Rightarrow> bool" where
  "in_range NetworkCode StationCode start_date end_date rnx =
     (rnx_NetworkCode rnx = NetworkCode \<and> rnx_StationCode rnx = StationCode \<and>
      mjd start_date * 86400 \<le> ObservationSTime rnx \<and>
      ObservationSTime rnx \<le> mjd end_date * 86400)"

definition select_rinex :: "rinex list \<Rightarrow> string \<Rightarrow> string \<Rightarrow> date \<Rightarrow> date \<Rightarrow> rinex list" where
  "select_rinex tbl NetworkCode StationCode start_date end_date =
     sort_key ObservationSTime (filter (in_range NetworkCode StationCode start_date end_date) tbl)"

text \<open>
  A row for one station-day whose session starts with the day, for concrete inputs.
\<close>

definition rinex_day :: "string \<Rightarrow> string \<Rightarrow> int \<Rightarrow> int \<Rightarrow> string \<Rightarrow> string \<Rightarrow> rinex" where
  "rinex_day net stn y doy serial fname =
     \<lparr>rnx_NetworkCode = net, rnx_StationCode = stn, ObservationYear = y, ObservationDOY = doy,
      ObservationSTime = datetime (Date_yeardoy y doy),
      ObservationETime = datetime (Date_yeardoy y doy) + 86370,
      rnx_ReceiverSerial = serial, Filename = fname\<rparr>"

section \<open>GetGaps\<close>

definition GetGaps_rows :: "rinex list \<Rightarrow> date list \<times> date list" where
  "GetGaps_rows rnxtbl =
     (if length rnxtbl > 0 then
        (let start_date = rinex_date (hd rnxtbl);
             end_date = rinex_date (last rnxtbl);
             possible_doys = map Date_mjd [mjd start_date..mjd end_date];
             actual_doys = map rinex_date rnxtbl
         in (filter (\<lambda>doy. \<not> date_in doy actual_doys) possible_doys, possible_doys))
      else ([], []))"

definition GetGaps :: "rinex list \<Rightarrow> string \<Rightarrow> string \<Rightarrow> date \<Rightarrow> date \<Rightarrow> date list \<times> date list" where
  "GetGaps tbl NetworkCode StationCode start_date end_date =
     GetGaps_rows (select_rinex tbl NetworkCode StationCode start_date end_date)"

text \<open>
  The spec's wording of findGaps, for comparison: the days of the queried range on which
  the station has no inventory row.
\<close>

definition findGaps_spec :: "rinex list \<Rightarrow> string \<Rightarrow> string \<Rightarrow> date \<Rightarrow> date \<Rightarrow> date list" where
  "findGaps_spec tbl NetworkCode StationCode start_date end_date =
     filter (\<lambda>doy. \<not> date_in doy (map rinex_date
               (filter (\<lambda>rnx. rnx_NetworkCode rnx = NetworkCode \<and> rnx_StationCode rnx = StationCode) tbl)))
       (map Date_mjd [mjd start_date..mjd end_date])"

section \<open>GetStnGaps\<close>

text \<open>
  A reported line \<open>gap in data found b -> e (n days)\<close> is kept as \<open>(b, e, n)\<close>.
  The loop reads row \<open>i\<close> together with row \<open>i - 1\<close> from the second row on;
  \<open>gap_begin\<close> is None or a Date, and a Date is true.
\<close>

type_synonym gap_line = "date \<times> date \<times> int"

fun GetStnGaps_loop :: "int \<Rightarrow> rinex \<Rightarrow> rinex list \<Rightarrow> date option \<times> gap_line list \<Rightarrow> date option \<times> gap_line list" where
  "GetStnGaps_loop ignore_val prev [] st = st"
| "GetStnGaps_loop ignore_val prev (rnx # rnxtbl) (gap_begin, gaps) =
     (let d1 = rinex_date rnx;
          d2 = rinex_date prev;
          gap_begin1 = (if \<not> date_eq d1 (date_add d2 1) \<and> gap_begin = None
                        then Some (date_add d2 1) else gap_begin)
      in GetStnGaps_loop ignore_val rnx rnxtbl
           (case gap_begin1 of
              Some b \<Rightarrow>
                (if date_eq d1 (date_add d2 1) then
                   (let days = (mjd (date_sub d2 1) - mjd b) + 1
                    in (None, if days > ignore_val then gaps @ [(b, date_sub d2 1, days)] else gaps))
                 else (gap_begin1, gaps))
            | None \<Rightarrow> (gap_begin1, gaps)))"

definition GetStnGaps_rows :: "int \<Rightarrow> rinex list \<Rightarrow> gap_line list" where
  "GetStnGaps_rows ignore_val rnxtbl =
     (case rnxtbl of [] \<Rightarrow> [] | rnx # rest \<Rightarrow> snd (GetStnGaps_loop ignore_val rnx rest (None, [])))"

definition GetStnGaps :: "rinex list \<Rightarrow> string \<Rightarrow> string \<Rightarrow> int \<Rightarrow> date \<Rightarrow> date \<Rightarrow> gap_line list" where
  "GetStnGaps tbl NetworkCode StationCode ignore_val start_date end_date =
     GetStnGaps_rows ignore_val (select_rinex tbl NetworkCode StationCode start_date end_date)"

section \<open>pyStationInfo\<close>

text \<open>
  A station-info record, with the fields the program reads. An absent \<open>DateEnd\<close>
  is the open record (Session Stop 9999 999).
\<close>

record stninfo =
  si_NetworkCode :: string
  si_StationCode :: string
  DateStart :: date
  DateEnd :: "date option"
  ReceiverCode :: string
  ReceiverSerial :: string
  AntennaCode :: string
  RadomeCode :: string

record StationInfo =
  sti_NetworkCode :: string
  sti_StationCode :: string
  records :: "stninfo list"
  currentrecord :: "stninfo option"

definition covers :: "date \<Rightarrow> stninfo \<Rightarrow> bool" where
  "covers d r =
     (datetime (DateStart r) \<le> datetime d \<and>
      (case DateEnd r of None \<Rightarrow> True | Some e \<Rightarrow> datetime d < datetime e))"

text \<open>
  Modelled from the spec: \<open>pyStationInfo.StationInfo(cnn, NetworkCode, StationCode, date,
  allow_empty)\<close>, which is not among the sources. It fetches the records of the station
  ordered by DateStart; it fails (NotFound) when the station has no record and
  \<open>allow_empty\<close> was not requested; with a date it resolves the record whose interval
  from DateStart up to but excluding DateEnd contains the date, the one with the latest
  DateStart when there are several, and fails (NoApplicableRecord) when the date is
  outside every interval. Both failures are pyStationInfoException.
\<close>

definition StationInfo_init :: "stninfo list \<Rightarrow> string \<Rightarrow> string \<Rightarrow> date option \<Rightarrow> bool \<Rightarrow> exn + StationInfo" where
  "StationInfo_init tbl NetworkCode StationCode date allow_empty =
     (let recs = sort_key (\<lambda>r. datetime (DateStart r))
                   (filter (\<lambda>r. si_NetworkCode r = NetworkCode \<and> si_StationCode r = StationCode) tbl)
      in if recs = [] \<and> \<not> allow_empty then Inl (pyStationInfoException ''NotFound'')
         else (case date of
                 None \<Rightarrow> Inr \<lparr>sti_NetworkCode = NetworkCode, sti_StationCode = StationCode,
                               records = recs, currentrecord = None\<rparr>
               | Some d \<Rightarrow>
                   (if filter (covers d) recs = [] then Inl (pyStationInfoException ''NoApplicableRecord'')
                    else Inr \<lparr>sti_NetworkCode = NetworkCode, sti_StationCode = StationCode,
                               records = recs, currentrecord = Some (last (filter (covers d) recs))\<rparr>)))"

section \<open>Receiver serial check\<close>

text \<open>\<open>str.lower()\<close> on ASCII text.\<close>

definition lower_char :: "char \<Rightarrow> char" where
  "lower_char c =
     (if (65::nat) \<le> of_char c \<and> of_char c \<le> (90::nat) then char_of (of_char c + (32::nat)) else c)"

definition lower :: "string \<Rightarrow> string" where
  "lower s = map lower_char s"

text \<open>
  A difference is the list \<open>[date, rinex_serial, declared_serial]\<close>; the result of
  \<open>compare_stninfo_rinex\<close> is a pair of an error message or None and a difference or
  None. \<open>cnn_error\<close> is the traceback when the connection to the catalog cannot be
  opened, None when it can.
\<close>

type_synonym difference = "date \<times> string \<times> string"

definition compare_stninfo_rinex :: "string option \<Rightarrow> stninfo list \<Rightarrow> string \<Rightarrow> string \<Rightarrow> int \<Rightarrow> int \<Rightarrow> string \<Rightarrow> string option \<times> difference option" where
  "compare_stninfo_rinex cnn_error tbl NetworkCode StationCode STime ETime rinex_serial =
     (case cnn_error of
        Some traceback \<Rightarrow>
          (Some (traceback @ '' open de database when processing processing '' @ NetworkCode @ ''.'' @ StationCode),
           None)
      | None \<Rightarrow>
          (let date = Date (STime + (ETime - STime) div 2)
           in case StationInfo_init tbl NetworkCode StationCode (Some date) False of
                Inl e \<Rightarrow> (Some (''Station Information error: '' @ (case e of pyStationInfoException m \<Rightarrow> m | _ \<Rightarrow> [])), None)
              | Inr stninfo \<Rightarrow>
                  (case currentrecord stninfo of
                     None \<Rightarrow> (None, None)
                   | Some cur \<Rightarrow>
                       (if lower (ReceiverSerial cur) \<noteq> lower rinex_serial
                        then (None, Some (date, rinex_serial, lower (ReceiverSerial cur)))
                        else (None, None)))))"

text \<open>
  \<open>get_differences\<close>: the error messages are written out, the differences are sorted
  by their date (a stable sort on the Date).
\<close>

definition get_differences :: "(string option \<times> difference option) list \<Rightarrow> difference list" where
  "get_differences differences =
     sort_key (\<lambda>item. datetime (fst item)) (map the (filter (\<lambda>d. d \<noteq> None) (map snd differences)))"

text \<open>
  What \<open>StnInfoRinexIntegrity\<close> writes for one station after the heading:
  \<open>WarningFrom d\<close> is \<open>Warning! net.stn from year doy to\<close> with the year and the
  day of year of \<open>d\<close>; \<open>MismatchLine d a b\<close> is
  \<open>year doy: RINEX SN a != Station Information b ...\<close> and ends the line.
\<close>

datatype report =
    is_WarningFrom: WarningFrom date
  | is_MismatchLine: MismatchLine date string string
  | NoInconsistencies

text \<open>\<open>diff_vect[i - 1]\<close>: at \<open>i = 0\<close> the index is -1, the last element.\<close>

definition index_before :: "'a list \<Rightarrow> nat \<Rightarrow> 'a" where
  "index_before xs i = (if i = 0 then xs ! (length xs - 1) else xs ! (i - 1))"

definition continues :: "difference list \<Rightarrow> nat \<Rightarrow> bool" where
  "continues diff_vect i =
     (date_eq (fst (diff_vect ! (i + 1))) (date_add (fst (diff_vect ! i)) 1) \<and>
      fst (snd (diff_vect ! (i + 1))) = fst (snd (diff_vect ! i)) \<and>
      snd (snd (diff_vect ! (i + 1))) = snd (snd (diff_vect ! i)))"

text \<open>
  One round of the loop over \<open>enumerate(diff_vect)\<close>. The state is the date behind
  the variables \<open>year\<close> and \<open>doy\<close>, \<open>print_head\<close> and what was written.
\<close>

definition report_step :: "difference list \<Rightarrow> nat \<Rightarrow> date option \<times> bool \<times> report list \<Rightarrow> date option \<times> bool \<times> report list" where
  "report_step diff_vect i st =
     (case st of (yd, print_head, out) \<Rightarrow>
        (let d = fst (diff_vect ! i);
             out1 = (if print_head then out @ [WarningFrom d] else out)
         in if i \<noteq> length diff_vect - 1 then
              (if continues diff_vect i then (Some d, False, out1)
               else (Some d, True,
                     out1 @ [MismatchLine d (fst (snd (index_before diff_vect i)))
                                            (snd (snd (index_before diff_vect i)))]))
            else (Some d, print_head, out1)))"

definition report_differences :: "difference list \<Rightarrow> report list" where
  "report_differences diff_vect =
     (case fold (report_step diff_vect) [0..<length diff_vect] (None, True, []) of
        (yd, print_head, out) \<Rightarrow>
          (case yd of
             Some d \<Rightarrow> out @ [MismatchLine d (fst (snd (last diff_vect))) (snd (snd (last diff_vect)))]
           | None \<Rightarrow> out @ [NoInconsistencies]))"

text \<open>
  \<open>StnInfoRinexIntegrity\<close> for one station: one job per row of the range, each
  result collected by the callback, then the report.
\<close>

definition StnInfoRinexIntegrity :: "string option \<Rightarrow> rinex list \<Rightarrow> stninfo list \<Rightarrow> string \<Rightarrow> string \<Rightarrow> date \<Rightarrow> date \<Rightarrow> report list" where
  "StnInfoRinexIntegrity cnn_error tbl_rinex_proc tbl_stationinfo NetworkCode StationCode start_date end_date =
     report_differences (get_differences
       (map (\<lambda>rnx. compare_stninfo_rinex cnn_error tbl_stationinfo NetworkCode StationCode
                     (ObservationSTime rnx) (ObservationETime rnx) (lower (rnx_ReceiverSerial rnx)))
            (select_rinex tbl_rinex_proc NetworkCode StationCode start_date end_date)))"

section \<open>Utils.process_date\<close>

definition exn_str :: "exn \<Rightarrow> string" where
  "exn_str e =
     (case e of Exception m \<Rightarrow> m | ValueError m \<Rightarrow> m | IndexError \<Rightarrow> ''list index out of range''
      | TypeError \<Rightarrow> ''unsupported operand'' | pyStationInfoException m \<Rightarrow> m
      | CatalogError m \<Rightarrow> m | IOError m \<Rightarrow> m)"

definition try_bind :: "exn + 'a \<Rightarrow> ('a \<Rightarrow> exn + 'b) \<Rightarrow> exn + 'b" where
  "try_bind x f = (case x of Inl e \<Rightarrow> Inl e | Inr v \<Rightarrow> f v)"

text \<open>
  \<open>int(s)\<close> on ASCII text without underscores (text with an underscore never reaches
  \<open>int\<close> in \<open>process_date\<close>): white space around the number is dropped, a sign may
  come first, and what remains must be one or more decimal digits.
\<close>

definition is_space :: "char \<Rightarrow> bool" where
  "is_space c = ((of_char c :: nat) \<in> {9, 10, 11, 12, 13, 28, 29, 30, 31, 32})"

definition is_digit :: "char \<Rightarrow> bool" where
  "is_digit c = ((48::nat) \<le> of_char c \<and> of_char c \<le> (57::nat))"

definition strip :: "string \<Rightarrow> string" where
  "strip s = rev (dropWhile is_space (rev (dropWhile is_space s)))"

definition digits_value :: "string \<Rightarrow> int" where
  "digits_value s = foldl (\<lambda>acc c. 10 * acc + (int (of_char c) - 48)) 0 s"

definition py_int :: "string \<Rightarrow> exn + int" where
  "py_int s =
     (let t = strip s;
          negative = (t \<noteq> [] \<and> hd t = CHR ''-'');
          body = (if t \<noteq> [] \<and> (hd t = CHR ''-'' \<or> hd t = CHR ''+'') then tl t else t)
      in if body \<noteq> [] \<and> list_all is_digit body
         then Inr (if negative then - digits_value body else digits_value body)
         else Inl (ValueError ''invalid literal for int() with base 10''))"

text \<open>\<open>s.split(sep)\<close> with a separator of one character.\<close>

fun split :: "char \<Rightarrow> string \<Rightarrow> string list" where
  "split sep [] = [[]]"
| "split sep (c # s) =
     (if c = sep then [] # split sep s
      else (case split sep s of [] \<Rightarrow> [[c]] | w # ws \<Rightarrow> (c # w) # ws))"

definition item :: "'a list \<Rightarrow> nat \<Rightarrow> exn + 'a" where
  "item xs i = (if i < length xs then Inr (xs ! i) else Inl IndexError)"

text \<open>
  The constructors of pyDate.Date that decode the four date formats are parameters:
  \<open>Date(fyear=float(arg))\<close> from the text, \<open>Date(year=, doy=)\<close>,
  \<open>Date(year=, month=, day=)\<close> and \<open>Date(gpsWeek=, gpsWeekDay=)\<close>, each of which
  may raise.
\<close>

record pyDate =
  of_fyear :: "string \<Rightarrow> exn + date"
  of_yeardoy :: "int \<Rightarrow> int \<Rightarrow> exn + date"
  of_ymd :: "int \<Rightarrow> int \<Rightarrow> int \<Rightarrow> exn + date"
  of_gps :: "int \<Rightarrow> int \<Rightarrow> exn + date"

text \<open>
  For concrete inputs: the two formats that name a day by a count, by day number, the
  other two refused.
\<close>

definition day_count_pyDate :: pyDate where
  "day_count_pyDate =
     \<lparr>of_fyear = (\<lambda>arg. Inl (ValueError ''fyear'')),
      of_yeardoy = (\<lambda>y doy. Inr (Date_yeardoy y doy)),
      of_ymd = (\<lambda>y m d. Inl (ValueError ''month'')),
      of_gps = (\<lambda>w d. Inr (Date_mjd (44244 + 7 * w + d)))\<rparr>"

text \<open>
  The body of the \<open>try\<close> for argument \<open>i\<close>: the Date to store in \<open>dates[i]\<close>,
  None when no branch applies (the empty string), or the exception raised. \<open>now\<close> is
  \<open>pyDate.Date(datetime=datetime.now())\<close>.
\<close>

definition decode_date :: "pyDate \<Rightarrow> date \<Rightarrow> bool \<Rightarrow> nat \<Rightarrow> string \<Rightarrow> exn + date option" where
  "decode_date P now allow_days i arg =
     (if CHR ''.'' \<in> set arg then
        try_bind (of_fyear P arg) (\<lambda>d. Inr (Some d))
      else if CHR ''_'' \<in> set arg then
        try_bind (try_bind (item (split CHR ''_'' arg) 0) py_int) (\<lambda>y.
        try_bind (try_bind (item (split CHR ''_'' arg) 1) py_int) (\<lambda>doy.
        try_bind (of_yeardoy P y doy) (\<lambda>d. Inr (Some d))))
      else if CHR ''/'' \<in> set arg then
        try_bind (try_bind (item (split CHR ''/'' arg) 0) py_int) (\<lambda>y.
        try_bind (try_bind (item (split CHR ''/'' arg) 1) py_int) (\<lambda>m.
        try_bind (try_bind (item (split CHR ''/'' arg) 2) py_int) (\<lambda>day.
        try_bind (of_ymd P y m day) (\<lambda>d. Inr (Some d)))))
      else if CHR ''-'' \<in> set arg then
        try_bind (try_bind (item (split CHR ''-'' arg) 0) py_int) (\<lambda>w.
        try_bind (try_bind (item (split CHR ''-'' arg) 1) py_int) (\<lambda>wd.
        try_bind (of_gps P w wd) (\<lambda>d. Inr (Some d))))
      else if length arg > 0 then
        (if allow_days \<and> i = 0 then
           try_bind (py_int arg) (\<lambda>n. Inr (Some (date_sub now n)))
         else Inl (ValueError ''Invalid input date: allow_days was set to False.''))
      else Inr None)"

definition could_not_decode :: "exn \<Rightarrow> exn" where
  "could_not_decode e =
     ValueError (''Could not decode input date (valid entries: fyear, yyyy_ddd, yyyy/mm/dd, gpswk-wkday). ''
                 @ ''Error while reading the date start/end parameters: '' @ exn_str e)"

text \<open>
  The loop over \<open>enumerate(arg)\<close>. Storing into \<open>dates[i]\<close> beyond the two
  entries raises IndexError inside the \<open>try\<close>.
\<close>

fun process_args :: "pyDate \<Rightarrow> date \<Rightarrow> bool \<Rightarrow> nat \<Rightarrow> string list \<Rightarrow> date option list \<Rightarrow> exn + date option list" where
  "process_args P now allow_days i [] dates = Inr dates"
| "process_args P now allow_days i (arg # args) dates =
     (case decode_date P now allow_days i arg of
        Inl e \<Rightarrow> Inl (could_not_decode e)
      | Inr None \<Rightarrow> process_args P now allow_days (Suc i) args dates
      | Inr (Some d) \<Rightarrow>
          (if i < length dates then process_args P now allow_days (Suc i) args (dates[i := Some d])
           else Inl (could_not_decode IndexError)))"

text \<open>\<open>arg\<close> is None when the option was not given; None and the empty list are false.\<close>

definition process_date :: "pyDate \<Rightarrow> date \<Rightarrow> string list option \<Rightarrow> string \<Rightarrow> bool \<Rightarrow> exn + date option list" where
  "process_date P now arg missing_input allow_days =
     (let dates = (if missing_input = ''fill'' then [Some (Date_yeardoy 1980 1), Some now]
                   else [None, None])
      in case arg of
           None \<Rightarrow> Inr dates
         | Some args \<Rightarrow> (if args = [] then Inr dates else process_args P now allow_days 0 args dates))"

section \<open>CheckSpatialCoherence\<close>

text \<open>
  A station as the spatial check returns it: its identity and its distance in metres
  from the position of the solution.
\<close>

record station =
  st_NetworkCode :: string
  st_StationCode :: string
  distance :: real

text \<open>
  Modelled from the spec: \<open>pyPPP.PPPSpatialCheck.verify_spatial_coherence(cnn,
  StationCode)\<close>, which is not among the sources. It finds the stations within 100 m of
  the position and returns \<open>(Result, match, closest_stn)\<close>. It is given the station
  code only, so a candidate is the declared station for it when it carries that code.
  No candidate: no match, and the closest station whatever its distance. Exactly one
  candidate: a match when it carries the declared station code, otherwise no match with
  that candidate. Several candidates: a match when exactly one carries the declared
  station code, with the closest candidate beside it when that one is closer; otherwise no
  match and all the candidates.
\<close>

definition verify_spatial_coherence :: "station list \<Rightarrow> string \<Rightarrow> bool \<times> station list \<times> station list" where
  "verify_spatial_coherence stns StationCode =
     (let found = filter (\<lambda>s. distance s \<le> 100) stns
      in if found = [] then (False, [], take 1 (sort_key distance stns))
         else if length found = 1 then
           (if st_StationCode (hd found) = StationCode then (True, found, [])
            else (False, found, []))
         else (let named = filter (\<lambda>s. st_StationCode s = StationCode) found;
                   closest = take 1 (sort_key distance found)
               in if length named = 1 then
                    (if distance (hd named) \<le> distance (hd closest) then (True, named, [])
                     else (True, named, closest))
                  else (False, found, [])))"

text \<open>
  What \<open>CheckSpatialCoherence\<close> writes for one solution, from the answer of the
  spatial check. Each message keeps the stations it names:
  \<open>OnlyCandidate\<close> is \<open>Warning! Solution for net.stn is a match for net'.stn' (only
  this candidate was found)\<close>, \<open>CloserTo\<close> is \<open>was found to be closer to\<close>,
  \<open>BestMatch\<close> and \<open>Candidates\<close> are \<open>does not match its station code\<close>
  with one or several candidates, \<open>NoMatch\<close> is \<open>had no match within 100 m\<close>.
\<close>

datatype message =
    OnlyCandidate "string \<times> string" "string \<times> string"
  | CloserTo station station
  | BestMatch station
  | Candidates "station list"
  | NoMatch station

definition CheckSpatialCoherence_soln :: "string \<Rightarrow> string \<Rightarrow> bool \<times> station list \<times> station list \<Rightarrow> exn + message list" where
  "CheckSpatialCoherence_soln NetworkCode StationCode answer =
     (case answer of (Result, match, closest_stn) \<Rightarrow>
        (if Result then
           (if length closest_stn = 0 then
              try_bind (item match 0) (\<lambda>m.
                if st_NetworkCode m \<noteq> NetworkCode \<and> st_StationCode m \<noteq> StationCode
                then Inr [OnlyCandidate (NetworkCode, StationCode) (st_NetworkCode m, st_StationCode m)]
                else Inr [])
            else try_bind (item match 0) (\<lambda>m. Inr [CloserTo (hd closest_stn) m]))
         else
           (if length match = 1 then Inr [BestMatch (hd match)]
            else if length match > 1 then Inr [Candidates match]
            else try_bind (item closest_stn 0) (\<lambda>c. Inr [NoMatch c]))))"

section \<open>StnInfoCheck: data between station-info records\<close>

text \<open>
  The objects of the comparison \<open>(sdate.datetime() - edate.datetime()).total_seconds > 1\<close>.
  \<open>total_seconds\<close> is a method of the time difference; the source does not call it,
  so the left operand is the method itself. Ordering a method against an integer raises
  TypeError.
\<close>

datatype pyobj = IntObj int | MethodObj

fun py_gt :: "pyobj \<Rightarrow> pyobj \<Rightarrow> exn + bool" where
  "py_gt (IntObj a) (IntObj b) = Inr (a > b)"
| "py_gt a b = Inl TypeError"

text \<open>The attribute \<open>total_seconds\<close> of a time difference of so many seconds.\<close>

definition total_seconds :: "int \<Rightarrow> pyobj" where
  "total_seconds delta = MethodObj"

text \<open>
  The datetime of a DateEnd; for the open record (Session Stop 9999 999) it is taken as
  the start of the last day of the year 9999.
\<close>

definition end_datetime :: "date option \<Rightarrow> int" where
  "end_datetime e = (case e of None \<Rightarrow> datetime (Date_yeardoy 9999 365) | Some d \<Rightarrow> datetime d)"

text \<open>
  A reported gap: the number of rows and the two records, each as (DateStart, DateEnd).
\<close>

type_synonym stninfo_gap = "nat \<times> (date \<times> date option) \<times> (date \<times> date option)"

text \<open>
  One round of the loop over the pairs of consecutive records: the gap to report, None
  when there is none, or the exception.
\<close>

definition StnInfoCheck_pair :: "rinex list \<Rightarrow> stninfo list \<Rightarrow> string \<Rightarrow> string \<Rightarrow> stninfo \<Rightarrow> stninfo \<Rightarrow> exn + stninfo_gap option" where
  "StnInfoCheck_pair tbl_rinex_proc tbl_stationinfo NetworkCode StationCode erecord srecord =
     (let sdate = DateStart srecord;
          edate = DateEnd erecord
      in case py_gt (total_seconds (datetime sdate - end_datetime edate)) (IntObj 1) of
           Inl e \<Rightarrow> Inl e
         | Inr exceeds \<Rightarrow>
             (if exceeds then
                (let count = length (filter (\<lambda>rnx. rnx_NetworkCode rnx = NetworkCode \<and>
                                    rnx_StationCode rnx = StationCode \<and>
                                    end_datetime edate < ObservationSTime rnx \<and>
                                    ObservationSTime rnx < datetime sdate) tbl_rinex_proc);
                     d1 = datetime sdate;
                     d2 = end_datetime edate
                 in if count \<noteq> 0 then
                      (case StationInfo_init tbl_stationinfo NetworkCode StationCode
                              (Some (Date (d1 + (d2 - d1) div 2))) False of
                         Inr stninfo \<Rightarrow> Inr None
                       | Inl e \<Rightarrow>
                           (if is_pyStationInfoException e
                            then Inr (Some (count, (DateStart erecord, DateEnd erecord),
                                                   (DateStart srecord, DateEnd srecord)))
                            else Inl e))
                    else Inr None)
              else Inr None))"

fun StnInfoCheck_pairs :: "rinex list \<Rightarrow> stninfo list \<Rightarrow> string \<Rightarrow> string \<Rightarrow> (stninfo \<times> stninfo) list \<Rightarrow> stninfo_gap list \<Rightarrow> exn + stninfo_gap list" where
  "StnInfoCheck_pairs tbl_rinex_proc tbl_stationinfo NetworkCode StationCode [] station_list_gaps =
     Inr station_list_gaps"
| "StnInfoCheck_pairs tbl_rinex_proc tbl_stationinfo NetworkCode StationCode (pair # pairs) station_list_gaps =
     (case StnInfoCheck_pair tbl_rinex_proc tbl_stationinfo NetworkCode StationCode (fst pair) (snd pair) of
        Inl e \<Rightarrow> Inl e
      | Inr None \<Rightarrow>
          StnInfoCheck_pairs tbl_rinex_proc tbl_stationinfo NetworkCode StationCode pairs station_list_gaps
      | Inr (Some gap) \<Rightarrow>
          StnInfoCheck_pairs tbl_rinex_proc tbl_stationinfo NetworkCode StationCode pairs
            (station_list_gaps @ [gap]))"

text \<open>
  The gaps between the records of one station, as \<open>StnInfoCheck\<close> collects them; an
  exception other than pyStationInfoException leaves \<open>StnInfoCheck\<close>.
\<close>

definition StnInfoCheck_gaps :: "rinex list \<Rightarrow> stninfo list \<Rightarrow> string \<Rightarrow> string \<Rightarrow> exn + stninfo_gap list" where
  "StnInfoCheck_gaps tbl_rinex_proc tbl_stationinfo NetworkCode StationCode =
     try_bind (StationInfo_init tbl_stationinfo NetworkCode StationCode None False) (\<lambda>stninfo.
       if length (records stninfo) > 1 then
         StnInfoCheck_pairs tbl_rinex_proc tbl_stationinfo NetworkCode StationCode
           (zip (butlast (records stninfo)) (tl (records stninfo))) []
       else Inr [])"

section \<open>The catalog, the archive and their failures\<close>

text \<open>
  The state the checks and the merge work on: the tables of the catalog that they read
  and write, the files and directories of the archive, what was written to the terminal,
  and the open transaction. A transaction holds the rinex table as it was at
  \<open>begin_transac\<close>, the only table written between \<open>begin_transac\<close> and
  \<open>commit_transac\<close>; \<open>rollback_transac\<close> puts it back.
\<close>

record world =
  db_stations :: "(string \<times> string) list"
  db_rinex :: "rinex list"
  db_stationinfo :: "stninfo list"
  db_events :: "(string \<rightharpoonup> pyval) list"
  files :: "string set"
  dirs :: "string set"
  transac :: "rinex list option"
  out :: "string list"

definition begin_transac :: "world \<Rightarrow> world" where
  "begin_transac w = w\<lparr>transac := Some (db_rinex w)\<rparr>"

definition commit_transac :: "world \<Rightarrow> world" where
  "commit_transac w = w\<lparr>transac := None\<rparr>"

definition rollback_transac :: "world \<Rightarrow> world" where
  "rollback_transac w =
     (case transac w of None \<Rightarrow> w | Some saved \<Rightarrow> w\<lparr>db_rinex := saved, transac := None\<rparr>)"

text \<open>
  The operations on the catalog and the archive that can raise. Which of them raise is
  given from outside: for a station in the checks, for a file in the merge.
\<close>

datatype op =
    OpenCnn | ReadOptions | Query | BuildPath | RemoveRinex | InsertEvent
  | Update | Makedirs | Move | Commit | LoadStationInfo

definition op_error :: "op \<Rightarrow> exn" where
  "op_error f =
     (case f of
        Makedirs \<Rightarrow> IOError ''makedirs''
      | Move \<Rightarrow> IOError ''move''
      | BuildPath \<Rightarrow> Exception ''build_rinex_path''
      | ReadOptions \<Rightarrow> Exception ''ReadOptions''
      | _ \<Rightarrow> CatalogError ''catalog'')"

text \<open>\<open>os.path.join\<close> of two parts and \<open>os.path.split\<close>.\<close>

definition path_join :: "string \<Rightarrow> string \<Rightarrow> string" where
  "path_join a b =
     (if b \<noteq> [] \<and> hd b = CHR ''/'' then b
      else if a = [] \<or> last a = CHR ''/'' then a @ b
      else a @ ''/'' @ b)"

definition path_split :: "string \<Rightarrow> string \<times> string" where
  "path_split p =
     (let tail = rev (takeWhile (\<lambda>c. c \<noteq> CHR ''/'') (rev p));
          head = take (length p - length tail) p
      in (if head \<noteq> [] \<and> \<not> list_all (\<lambda>c. c = CHR ''/'') head
          then rev (dropWhile (\<lambda>c. c = CHR ''/'') (rev head)) else head,
          tail))"

text \<open>
  What the functions read besides the state: the host name, the archive path of the
  options, \<open>Archive.build_rinex_path\<close> (pyArchiveStruct is not among the sources),
  the surroundings of \<open>Event\<close>, and the operations that raise for a station.
\<close>

record check_env =
  node :: string
  archive_path :: string
  build_rinex_path :: "string \<Rightarrow> string \<Rightarrow> int \<Rightarrow> int \<Rightarrow> string \<Rightarrow> string"
  event_env :: event_env
  failing :: "string \<times> string \<Rightarrow> op list"

section \<open>check_rinex_stn\<close>





section \<open>The dispatcher\<close>







section \<open>Concrete surroundings\<close>

text \<open>
  For concrete inputs: an archive laid out as network/station/file, surroundings in which
  the catalog query fails for one station and nothing else fails, and a world with empty
  tables and an empty archive.
\<close>

definition flat_rinex_path :: "string \<Rightarrow> string \<Rightarrow> int \<Rightarrow> int \<Rightarrow> string \<Rightarrow> string" where
  "flat_rinex_path NetworkCode StationCode year doy filename =
     NetworkCode @ ''/'' @ StationCode @ ''/'' @ filename"



section \<open>RenameStation\<close>

text \<open>\<open>s.replace(old, new)\<close>: every occurrence, from the left, without overlap.\<close>

function replace :: "string \<Rightarrow> string \<Rightarrow> string \<Rightarrow> string" where
  "replace old new s =
     (if old = [] then new @ concat (map (\<lambda>c. c # new) s)
      else if s = [] then []
      else if take (length old) s = old then new @ replace old new (drop (length old) s)
      else hd s # replace old new (tl s))"
  by pat_completeness auto
termination
  by (relation "measure (\<lambda>(old, new, s). length s)") auto

text \<open>
  Modelled from the spec: \<open>StationInfo.InsertStationInfo(record)\<close>, which is not
  among the sources. The insert fails (pyStationInfoException) when the interval of the
  new record overlaps the interval of a record of the station; an open interval has no
  end. Otherwise the record is added to the station-info table as it is given.
\<close>

definition intervals_overlap :: "stninfo \<Rightarrow> stninfo \<Rightarrow> bool" where
  "intervals_overlap a b =
     ((case DateEnd b of None \<Rightarrow> True | Some e \<Rightarrow> datetime (DateStart a) < datetime e) \<and>
      (case DateEnd a of None \<Rightarrow> True | Some e \<Rightarrow> datetime (DateStart b) < datetime e))"

definition InsertStationInfo :: "StationInfo \<Rightarrow> stninfo \<Rightarrow> stninfo list \<Rightarrow> exn + stninfo list" where
  "InsertStationInfo self record tbl =
     (if list_ex (intervals_overlap record) (records self)
      then Inl (pyStationInfoException ''IntervalConflict'')
      else Inr (tbl @ [record]))"

text \<open>
  What the merge reads besides the state: the archive path,
  \<open>Archive.build_rinex_path\<close>, and the operations that raise while a file is
  migrated.
\<close>

record rename_env =
  rn_archive_path :: string
  rn_build_rinex_path :: "string \<Rightarrow> string \<Rightarrow> int \<Rightarrow> int \<Rightarrow> string \<Rightarrow> string"
  rn_failing :: "rinex \<Rightarrow> op list"

text \<open>
  The station info transfer after the commit of a file. The result is the exception that
  leaves the block, if any, and the state. The inner \<open>try\<close> is \<open>copy_stninfo\<close>:
  the station-info table after the insert, or the exception.
\<close>

definition copy_stninfo :: "string \<Rightarrow> string \<Rightarrow> string \<Rightarrow> string \<Rightarrow> date \<Rightarrow> stninfo list \<Rightarrow> exn + stninfo list" where
  "copy_stninfo NetworkCode StationCode DestNetworkCode DestStationCode date tbl =
     try_bind (StationInfo_init tbl DestNetworkCode DestStationCode None False) (\<lambda>stninfo_dest.
     try_bind (StationInfo_init tbl NetworkCode StationCode (Some date) False) (\<lambda>stninfo_src.
       case currentrecord stninfo_src of
         None \<Rightarrow> Inl TypeError
       | Some record \<Rightarrow>
           InsertStationInfo stninfo_dest (record\<lparr>si_StationCode := DestStationCode\<rparr>) tbl))"

definition stninfo_transfer :: "rename_env \<Rightarrow> string \<Rightarrow> string \<Rightarrow> string \<Rightarrow> string \<Rightarrow> rinex \<Rightarrow> world \<Rightarrow> exn option \<times> world" where
  "stninfo_transfer env NetworkCode StationCode DestNetworkCode DestStationCode src_rinex w =
     (let date = rinex_date src_rinex
      in if LoadStationInfo \<in> set (rn_failing env src_rinex) then (Some (op_error LoadStationInfo), w)
         else
           (case StationInfo_init (db_stationinfo w) DestNetworkCode DestStationCode (Some date) False of
              Inr stninfo_dest \<Rightarrow> (None, w)
            | Inl e \<Rightarrow>
                (if \<not> is_pyStationInfoException e then (Some e, w)
                 else
                   (case copy_stninfo NetworkCode StationCode DestNetworkCode DestStationCode date
                           (db_stationinfo w) of
                      Inr tbl \<Rightarrow> (None, w\<lparr>db_stationinfo := tbl\<rparr>)
                    | Inl e' \<Rightarrow>
                        (if is_pyStationInfoException e'
                         then (None, w\<lparr>out := out w @
                                 ['' -- Error while updating Station Information! '' @ exn_str e']\<rparr>)
                         else (Some e', w))))))"

text \<open>
  The statement \<open>UPDATE rinex SET "NetworkCode", "StationCode", "Filename" WHERE ...\<close>
  on the rows of the source station with the year, the day and the file name of the file.
\<close>

definition update_rinex :: "string \<Rightarrow> string \<Rightarrow> string \<Rightarrow> string \<Rightarrow> rinex \<Rightarrow> string \<Rightarrow> rinex list \<Rightarrow> rinex list" where
  "update_rinex NetworkCode StationCode DestNetworkCode DestStationCode src_rinex filename tbl =
     map (\<lambda>r. if rnx_NetworkCode r = NetworkCode \<and> rnx_StationCode r = StationCode \<and>
                  ObservationYear r = ObservationYear src_rinex \<and>
                  ObservationDOY r = ObservationDOY src_rinex \<and>
                  Filename r = Filename src_rinex
               then r\<lparr>rnx_NetworkCode := DestNetworkCode, rnx_StationCode := DestStationCode,
                      Filename := filename\<rparr>
               else r) tbl"

text \<open>
  The body of the loop for one file of the queue: the paths, the transaction around the
  update of the row and the move of the file, and the station info transfer.
\<close>

definition RenameStation_file :: "rename_env \<Rightarrow> string \<Rightarrow> string \<Rightarrow> string \<Rightarrow> string \<Rightarrow> rinex \<Rightarrow> world \<Rightarrow> exn option \<times> world" where
  "RenameStation_file env NetworkCode StationCode DestNetworkCode DestStationCode src_rinex w =
     (if BuildPath \<in> set (rn_failing env src_rinex) then (Some (op_error BuildPath), w)
      else
        (let src_file_path = rn_build_rinex_path env NetworkCode StationCode
                               (ObservationYear src_rinex) (ObservationDOY src_rinex) (Filename src_rinex);
             src_path = fst (path_split (path_join (rn_archive_path env) src_file_path));
             src_file = snd (path_split (path_join (rn_archive_path env) src_file_path));
             dest_file = replace StationCode DestStationCode src_file;
             w1 = begin_transac w
         in if Update \<in> set (rn_failing env src_rinex) then (Some (op_error Update), w1)
            else
              (let w2 = w1\<lparr>db_rinex :=
                          update_rinex NetworkCode StationCode DestNetworkCode DestStationCode src_rinex
                            (replace ''d.Z'' ''o'' dest_file) (db_rinex w1)\<rparr>;
                   dest_path = replace NetworkCode DestNetworkCode
                                 (replace StationCode DestStationCode src_path)
               in if dest_path \<notin> dirs w2 \<and> Makedirs \<in> set (rn_failing env src_rinex)
                  then (Some (op_error Makedirs), w2)
                  else
                    (let w3 = w2\<lparr>dirs := insert dest_path (dirs w2)\<rparr>
                     in if Move \<in> set (rn_failing env src_rinex) \<or>
                           path_join src_path src_file \<notin> files w3
                        then (Some (op_error Move), w3)
                        else
                          (let w4 = w3\<lparr>files := insert (path_join dest_path dest_file)
                                                  (files w3 - {path_join src_path src_file})\<rparr>
                           in if Commit \<in> set (rn_failing env src_rinex)
                              then (Some (op_error Commit), w4)
                              else stninfo_transfer env NetworkCode StationCode DestNetworkCode
                                     DestStationCode src_rinex (commit_transac w4))))))"

text \<open>
  The two locations of a file, as the loop computes them: where it is before the move,
  \<open>os.path.join(src_path, src_file)\<close>, and where the move puts it,
  \<open>os.path.join(dest_path, dest_file)\<close>.
\<close>

definition src_location :: "rename_env \<Rightarrow> string \<Rightarrow> string \<Rightarrow> rinex \<Rightarrow> string" where
  "src_location env NetworkCode StationCode src_rinex =
     (let src_file_path = rn_build_rinex_path env NetworkCode StationCode
                            (ObservationYear src_rinex) (ObservationDOY src_rinex) (Filename src_rinex);
          src_path = fst (path_split (path_join (rn_archive_path env) src_file_path));
          src_file = snd (path_split (path_join (rn_archive_path env) src_file_path))
      in path_join src_path src_file)"

definition dest_location :: "rename_env \<Rightarrow> string \<Rightarrow> string \<Rightarrow> string \<Rightarrow> string \<Rightarrow> rinex \<Rightarrow> string" where
  "dest_location env NetworkCode StationCode DestNetworkCode DestStationCode src_rinex =
     (let src_file_path = rn_build_rinex_path env NetworkCode StationCode
                            (ObservationYear src_rinex) (ObservationDOY src_rinex) (Filename src_rinex);
          src_path = fst (path_split (path_join (rn_archive_path env) src_file_path));
          src_file = snd (path_split (path_join (rn_archive_path env) src_file_path));
          dest_file = replace StationCode DestStationCode src_file;
          dest_path = replace NetworkCode DestNetworkCode
                        (replace StationCode DestStationCode src_path)
      in path_join dest_path dest_file)"

fun RenameStation_loop :: "rename_env \<Rightarrow> string \<Rightarrow> string \<Rightarrow> string \<Rightarrow> string \<Rightarrow> rinex list \<Rightarrow> world \<Rightarrow> exn option \<times> world" where
  "RenameStation_loop env NetworkCode StationCode DestNetworkCode DestStationCode [] w = (None, w)"
| "RenameStation_loop env NetworkCode StationCode DestNetworkCode DestStationCode (src_rinex # original_rs) w =
     (case RenameStation_file env NetworkCode StationCode DestNetworkCode DestStationCode src_rinex w of
        (Some e, w') \<Rightarrow> (Some e, w')
      | (None, w') \<Rightarrow>
          RenameStation_loop env NetworkCode StationCode DestNetworkCode DestStationCode original_rs w')"

text \<open>
  \<open>RenameStation\<close>: the exception it re-raises, if any, and the state it leaves. An
  exception in the loop is followed by \<open>rollback_transac\<close>. The rows to transfer are
  selected once, before the loop.
\<close>

definition RenameStation :: "rename_env \<Rightarrow> world \<Rightarrow> string \<Rightarrow> string \<Rightarrow> string \<Rightarrow> string \<Rightarrow> date \<Rightarrow> date \<Rightarrow> exn option \<times> world" where
  "RenameStation env w NetworkCode StationCode DestNetworkCode DestStationCode start_date end_date =
     (if (DestNetworkCode, DestStationCode) \<notin> set (db_stations w) then
        (None, w\<lparr>out := out w @
           [''The requested destiny station does not exist. Please create it and try again'']\<rparr>)
      else
        (let original_rs = filter (in_range NetworkCode StationCode start_date end_date) (db_rinex w)
         in case RenameStation_loop env NetworkCode StationCode DestNetworkCode DestStationCode
                   original_rs w of
              (Some e, w') \<Rightarrow> (Some e, rollback_transac w')
            | (None, w') \<Rightarrow> (None, w')))"

text \<open>For concrete inputs: the operation \<open>f\<close> fails for the file of the given name.\<close>

definition fails_at :: "string \<Rightarrow> op \<Rightarrow> rinex \<Rightarrow> op list" where
  "fails_at fname f rnx = (if Filename rnx = fname then [f] else [])"


text \<open>
  For concrete inputs: an open station-info record of a station from a day on, a record
  from a day up to another, and a world in which station rms.aaaa has three files, on days 1 to 3 of 2020, to be merged
  into rms.bbbb.
\<close>

definition open_record :: "string \<Rightarrow> string \<Rightarrow> int \<Rightarrow> int \<Rightarrow> stninfo" where
  "open_record net stn y doy =
     \<lparr>si_NetworkCode = net, si_StationCode = stn, DateStart = Date_yeardoy y doy,
      DateEnd = None, ReceiverCode = ''TRIMBLE NETR9'', ReceiverSerial = ''5024K'',
      AntennaCode = ''TRM59800.00'', RadomeCode = ''SCIT''\<rparr>"


definition merge_world :: "stninfo list \<Rightarrow> world" where
  "merge_world stationinfo =
     \<lparr>db_stations = [(''rms'', ''aaaa''), (''rms'', ''bbbb'')],
      db_rinex = [rinex_day ''rms'' ''aaaa'' 2020 1 ''sn'' ''aaaa0010.20d.Z'',
                  rinex_day ''rms'' ''aaaa'' 2020 2 ''sn'' ''aaaa0020.20d.Z'',
                  rinex_day ''rms'' ''aaaa'' 2020 3 ''sn'' ''aaaa0030.20d.Z''],
      db_stationinfo = stationinfo,
      db_events = [],
      files = {''/archive/rms/aaaa/aaaa0010.20d.Z'', ''/archive/rms/aaaa/aaaa0020.20d.Z'',
               ''/archive/rms/aaaa/aaaa0030.20d.Z''},
      dirs = {''/archive/rms/aaaa''}, transac = None, out = []\<rparr>"

definition merge_env :: "(rinex \<Rightarrow> op list) \<Rightarrow> rename_env" where
  "merge_env failing_for =
     \<lparr>rn_archive_path = ''/archive'', rn_build_rinex_path = flat_rinex_path,
      rn_failing = failing_for\<rparr>"

section \<open>Properties of Event\<close>

lemma dom_Event_defaults:
  "dom ((Event_defaults env)(''module'' \<mapsto> PyStr m)) = set valid_fields"
  by (auto simp: Event_defaults_def valid_fields_def)

lemma Event_kwargs_raises:
  "\<exists>k \<in> fst ` set kwargs. k \<notin> dom self \<Longrightarrow> isl (Event_kwargs self kwargs)"
proof (induction kwargs arbitrary: self)
  case Nil
  then show ?case by simp
next
  case (Cons kv kwargs)
  obtain key arg where kv: "kv = (key, arg)" by (cases kv)
  show ?case
  proof (cases "self key = None")
    case True
    then show ?thesis by (simp add: kv)
  next
    case False
    then have d: "dom (self(key \<mapsto> arg)) = dom self" by auto
    from Cons.prems False kv have "\<exists>k \<in> fst ` set kwargs. k \<notin> dom self"
      by (auto simp: domIff)
    then have "\<exists>k \<in> fst ` set kwargs. k \<notin> dom (self(key \<mapsto> arg))"
      by (simp only: d)
    then have "isl (Event_kwargs (self(key \<mapsto> arg)) kwargs)"
      by (rule Cons.IH)
    with False show ?thesis by (simp add: kv)
  qed
qed

lemma Event_kwargs_dom:
  "Event_kwargs self kwargs = Inr self' \<Longrightarrow> dom self' = dom self"
proof (induction kwargs arbitrary: self)
  case Nil
  then show ?case by simp
next
  case (Cons kv kwargs)
  obtain key arg where kv: "kv = (key, arg)" by (cases kv)
  from Cons.prems kv have nn: "self key \<noteq> None"
    by (auto split: if_splits)
  with Cons.prems kv have "Event_kwargs (self(key \<mapsto> arg)) kwargs = Inr self'"
    by simp
  then have "dom self' = dom (self(key \<mapsto> arg))" by (rule Cons.IH)
  with nn show ?case by auto
qed

lemma Event_stack_dom: "''stack'' \<in> dom self \<Longrightarrow> dom (Event_stack env self) = dom self"
  by (auto simp: Event_stack_def)

lemma Event_stack_populated:
  "(Event_stack env self ''stack'' \<noteq> Some PyNone) =
   (Event_stack env self ''EventType'' = Some (PyStr ''error''))"
  by (simp add: Event_stack_def)

text \<open>
  C9. Constructing an Event with a keyword argument whose name is not one of the ten
  fixed fields raises an exception; an Event that is constructed carries exactly the ten
  fields, and its stack field is populated (not None) if and only if its EventType is
  'error'.
\<close>

theorem Event_init_fields:
  "((\<exists>k \<in> fst ` set kwargs. k \<notin> set valid_fields) \<longrightarrow> isl (Event_init env kwargs)) \<and>
   (\<forall>ev. Event_init env kwargs = Inr ev \<longrightarrow>
      dom ev = set valid_fields \<and>
      (ev ''stack'' \<noteq> Some PyNone) = (ev ''EventType'' = Some (PyStr ''error'')))"
proof (intro conjI impI allI)
  assume bad: "\<exists>k \<in> fst ` set kwargs. k \<notin> set valid_fields"
  show "isl (Event_init env kwargs)"
  proof (cases "Event_module env")
    case (Inl e)
    then show ?thesis by (simp add: Event_init_def)
  next
    case (Inr m)
    from bad have "isl (Event_kwargs ((Event_defaults env)(''module'' \<mapsto> PyStr m)) kwargs)"
      by (intro Event_kwargs_raises) (simp only: dom_Event_defaults)
    with Inr show ?thesis
      by (auto simp: Event_init_def split: sum.splits)
  qed
next
  fix ev
  assume ok: "Event_init env kwargs = Inr ev"
  then obtain m self where m: "Event_module env = Inr m"
    and self: "Event_kwargs ((Event_defaults env)(''module'' \<mapsto> PyStr m)) kwargs = Inr self"
    and ev: "ev = Event_stack env self"
    by (auto simp: Event_init_def split: sum.splits)
  from self have d: "dom self = set valid_fields"
    using Event_kwargs_dom dom_Event_defaults by blast
  then have "''stack'' \<in> dom self" by (simp add: valid_fields_def)
  with d ev show "dom ev = set valid_fields" by (simp add: Event_stack_dom)
  from ev show "(ev ''stack'' \<noteq> Some PyNone) = (ev ''EventType'' = Some (PyStr ''error''))"
    by (simp only: Event_stack_populated)
qed

theorem Event_init_fields_witness:
  "isl (Event_init \<lparr>ev_now = 0, ev_node = ''node1'', ev_module = None, ev_caller = ''main'',
          ev_extract_stack = [], ev_format_stack = [''frame'']\<rparr> [(''Severity'', PyInt 1)]) \<and>
   (\<exists>ev. Event_init \<lparr>ev_now = 0, ev_node = ''node1'', ev_module = None, ev_caller = ''main'',
          ev_extract_stack = [], ev_format_stack = [''frame'']\<rparr> [(''EventType'', PyStr ''error'')] = Inr ev \<and>
      dom ev = set valid_fields \<and> ev ''stack'' \<noteq> Some PyNone)"
proof -
  let ?env = "\<lparr>ev_now = 0, ev_node = ''node1'', ev_module = None, ev_caller = ''main'',
          ev_extract_stack = [], ev_format_stack = [''frame'']\<rparr>"
  have bad: "\<exists>k \<in> fst ` set [(''Severity'', PyInt 1)]. k \<notin> set valid_fields"
    by (simp add: valid_fields_def)
  have a: "isl (Event_init ?env [(''Severity'', PyInt 1)])"
    using Event_init_fields [of "[(''Severity'', PyInt 1)]" ?env] bad by blast
  obtain ev where ev: "Event_init ?env [(''EventType'', PyStr ''error'')] = Inr ev"
    and ty: "ev ''EventType'' = Some (PyStr ''error'')"
    by (simp add: Event_init_def Event_module_def Event_defaults_def Event_stack_def)
  from ev ty have "dom ev = set valid_fields \<and> ev ''stack'' \<noteq> Some PyNone"
    using Event_init_fields [of "[(''EventType'', PyStr ''error'')]" ?env] by blast
  with a ev show ?thesis by blast
qed

section \<open>Properties of the gap scans\<close>

lemma mjd_Date_mjd: "mjd (Date_mjd m) = m"
  by (simp add: mjd_def Date_mjd_def)

lemma date_in_iff: "date_in d ds = (mjd d \<in> mjd ` set ds)"
  by (auto simp: date_in_def date_eq_def list_ex_iff)

lemma GetGaps_rows_Nil: "GetGaps_rows [] = ([], [])"
  by (simp add: GetGaps_rows_def)

lemma GetGaps_rows_set:
  assumes "rnxtbl \<noteq> []"
  shows "mjd ` set (fst (GetGaps_rows rnxtbl)) =
         {mjd (rinex_date (hd rnxtbl))..mjd (rinex_date (last rnxtbl))} - mjd ` rinex_date ` set rnxtbl"
proof -
  let ?a = "mjd (rinex_date (hd rnxtbl))" and ?b = "mjd (rinex_date (last rnxtbl))"
  let ?obs = "mjd ` rinex_date ` set rnxtbl"
  have "fst (GetGaps_rows rnxtbl) =
        filter (\<lambda>doy. mjd doy \<notin> ?obs) (map Date_mjd [?a..?b])"
    using assms by (simp add: GetGaps_rows_def Let_def date_in_iff)
  then have "mjd ` set (fst (GetGaps_rows rnxtbl)) = mjd ` {d \<in> Date_mjd ` {?a..?b}. mjd d \<notin> ?obs}"
    by simp
  also have "\<dots> = {?a..?b} - ?obs"
  proof (rule set_eqI, rule iffI)
    fix x
    assume "x \<in> mjd ` {d \<in> Date_mjd ` {?a..?b}. mjd d \<notin> ?obs}"
    then show "x \<in> {?a..?b} - ?obs"
      by (auto simp: mjd_Date_mjd)
  next
    fix x
    assume "x \<in> {?a..?b} - ?obs"
    then have "Date_mjd x \<in> {d \<in> Date_mjd ` {?a..?b}. mjd d \<notin> ?obs}"
      by (simp add: mjd_Date_mjd)
    then have "mjd (Date_mjd x) \<in> mjd ` {d \<in> Date_mjd ` {?a..?b}. mjd d \<notin> ?obs}"
      by (rule imageI)
    then show "x \<in> mjd ` {d \<in> Date_mjd ` {?a..?b}. mjd d \<notin> ?obs}"
      by (simp only: mjd_Date_mjd)
  qed
  finally show ?thesis .
qed

text \<open>
  C2, as the code has it. GetGaps replaces the queried range by the span of the data: with
  the station's rows of the queried range in the order of their session start, the gaps
  are exactly the days from the day of the first row to the day of the last row on which
  none of these rows falls; when the range holds no row there are no gaps.
\<close>

theorem GetGaps_complement_in_data_span:
  "(select_rinex tbl net stn start_date end_date = [] \<longrightarrow>
      fst (GetGaps tbl net stn start_date end_date) = []) \<and>
   (select_rinex tbl net stn start_date end_date \<noteq> [] \<longrightarrow>
      mjd ` set (fst (GetGaps tbl net stn start_date end_date)) =
      {mjd (rinex_date (hd (select_rinex tbl net stn start_date end_date)))..
       mjd (rinex_date (last (select_rinex tbl net stn start_date end_date)))}
      - mjd ` rinex_date ` set (select_rinex tbl net stn start_date end_date))"
  by (simp add: GetGaps_def GetGaps_rows_Nil GetGaps_rows_set)

theorem GetGaps_complement_in_data_span_witness:
  "select_rinex
     [rinex_day ''rms'' ''igm1'' 2020 1 ''sn'' ''f1'', rinex_day ''rms'' ''igm1'' 2020 2 ''sn'' ''f2'',
      rinex_day ''rms'' ''igm1'' 2020 5 ''sn'' ''f5'', rinex_day ''rms'' ''igm1'' 2020 6 ''sn'' ''f6'']
     ''rms'' ''igm1'' (Date_yeardoy 2020 1) (Date_yeardoy 2020 6) \<noteq> [] \<and>
   fst (GetGaps
     [rinex_day ''rms'' ''igm1'' 2020 1 ''sn'' ''f1'', rinex_day ''rms'' ''igm1'' 2020 2 ''sn'' ''f2'',
      rinex_day ''rms'' ''igm1'' 2020 5 ''sn'' ''f5'', rinex_day ''rms'' ''igm1'' 2020 6 ''sn'' ''f6'']
     ''rms'' ''igm1'' (Date_yeardoy 2020 1) (Date_yeardoy 2020 6)) =
     [Date_yeardoy 2020 3, Date_yeardoy 2020 4] \<and>
   mjd ` set [Date_yeardoy 2020 3, Date_yeardoy 2020 4] =
     {mjd (Date_yeardoy 2020 1)..mjd (Date_yeardoy 2020 6)}
     - mjd ` rinex_date ` set (select_rinex
     [rinex_day ''rms'' ''igm1'' 2020 1 ''sn'' ''f1'', rinex_day ''rms'' ''igm1'' 2020 2 ''sn'' ''f2'',
      rinex_day ''rms'' ''igm1'' 2020 5 ''sn'' ''f5'', rinex_day ''rms'' ''igm1'' 2020 6 ''sn'' ''f6'']
     ''rms'' ''igm1'' (Date_yeardoy 2020 1) (Date_yeardoy 2020 6))"
proof -
  let ?tbl = "[rinex_day ''rms'' ''igm1'' 2020 1 ''sn'' ''f1'', rinex_day ''rms'' ''igm1'' 2020 2 ''sn'' ''f2'',
      rinex_day ''rms'' ''igm1'' 2020 5 ''sn'' ''f5'', rinex_day ''rms'' ''igm1'' 2020 6 ''sn'' ''f6'']"
  let ?rows = "select_rinex ?tbl ''rms'' ''igm1'' (Date_yeardoy 2020 1) (Date_yeardoy 2020 6)"
  have rows: "?rows = ?tbl"
    by code_simp
  have ne: "?rows \<noteq> []"
    by (simp only: rows) simp
  have gaps: "fst (GetGaps ?tbl ''rms'' ''igm1'' (Date_yeardoy 2020 1) (Date_yeardoy 2020 6)) =
     [Date_yeardoy 2020 3, Date_yeardoy 2020 4]"
    by code_simp
  have h: "hd ?rows = rinex_day ''rms'' ''igm1'' 2020 1 ''sn'' ''f1''"
    by (simp only: rows) simp
  have l: "last ?rows = rinex_day ''rms'' ''igm1'' 2020 6 ''sn'' ''f6''"
    by (simp only: rows) simp
  have d1: "rinex_date (rinex_day ''rms'' ''igm1'' 2020 1 ''sn'' ''f1'') = Date_yeardoy 2020 1"
    by (simp add: rinex_date_def rinex_day_def)
  have d6: "rinex_date (rinex_day ''rms'' ''igm1'' 2020 6 ''sn'' ''f6'') = Date_yeardoy 2020 6"
    by (simp add: rinex_date_def rinex_day_def)
  from ne GetGaps_complement_in_data_span [of ?tbl "''rms''" "''igm1''" "Date_yeardoy 2020 1" "Date_yeardoy 2020 6"]
  have "mjd ` set (fst (GetGaps ?tbl ''rms'' ''igm1'' (Date_yeardoy 2020 1) (Date_yeardoy 2020 6))) =
      {mjd (rinex_date (hd ?rows))..mjd (rinex_date (last ?rows))} - mjd ` rinex_date ` set ?rows"
    by blast
  then have "mjd ` set [Date_yeardoy 2020 3, Date_yeardoy 2020 4] =
      {mjd (Date_yeardoy 2020 1)..mjd (Date_yeardoy 2020 6)} - mjd ` rinex_date ` set ?rows"
    by (simp only: gaps h l d1 d6)
  with ne gaps show ?thesis by blast
qed

theorem GetGaps_queried_range_counterexample:
  "fst (GetGaps
     [rinex_day ''rms'' ''igm1'' 2020 2 ''sn'' ''f2'', rinex_day ''rms'' ''igm1'' 2020 3 ''sn'' ''f3'']
     ''rms'' ''igm1'' (Date_yeardoy 2020 1) (Date_yeardoy 2020 6)) = [] \<and>
   findGaps_spec
     [rinex_day ''rms'' ''igm1'' 2020 2 ''sn'' ''f2'', rinex_day ''rms'' ''igm1'' 2020 3 ''sn'' ''f3'']
     ''rms'' ''igm1'' (Date_yeardoy 2020 1) (Date_yeardoy 2020 6) =
     [Date_yeardoy 2020 1, Date_yeardoy 2020 4, Date_yeardoy 2020 5, Date_yeardoy 2020 6]"
  by code_simp

text \<open>
  The two runs the spec names, each followed by two observed days in a row: a run of three
  missing days is not reported with an ignore value of 5, a run of six is.
\<close>

lemma GetStnGaps_closed_runs:
  "GetStnGaps
     [rinex_day ''rms'' ''igm1'' 2020 1 ''sn'' ''f1'', rinex_day ''rms'' ''igm1'' 2020 5 ''sn'' ''f5'',
      rinex_day ''rms'' ''igm1'' 2020 6 ''sn'' ''f6'']
     ''rms'' ''igm1'' 5 (Date_yeardoy 2020 1) (Date_yeardoy 2020 30) = []"
  "GetStnGaps
     [rinex_day ''rms'' ''igm1'' 2020 1 ''sn'' ''f1'', rinex_day ''rms'' ''igm1'' 2020 8 ''sn'' ''f8'',
      rinex_day ''rms'' ''igm1'' 2020 9 ''sn'' ''f9'']
     ''rms'' ''igm1'' 5 (Date_yeardoy 2020 1) (Date_yeardoy 2020 30) =
     [(Date_yeardoy 2020 2, Date_yeardoy 2020 7, 6)]"
  by code_simp+

text \<open>
  C3. A run is closed only by two observed days in a row. With rows on days 1 and 8 of
  2020 and an ignore value of 5, the six missing days 2 to 7 are not reported; with rows
  on days 1, 8, 10 and 11 the report is one run from day 2 to day 9 of 8 days, which
  includes day 8, a day with data.
\<close>

theorem GetStnGaps_run_not_closed:
  "GetStnGaps
     [rinex_day ''rms'' ''igm1'' 2020 1 ''sn'' ''f1'', rinex_day ''rms'' ''igm1'' 2020 8 ''sn'' ''f8'']
     ''rms'' ''igm1'' 5 (Date_yeardoy 2020 1) (Date_yeardoy 2020 30) = [] \<and>
   GetStnGaps
     [rinex_day ''rms'' ''igm1'' 2020 1 ''sn'' ''f1'', rinex_day ''rms'' ''igm1'' 2020 8 ''sn'' ''f8'',
      rinex_day ''rms'' ''igm1'' 2020 10 ''sn'' ''f10'', rinex_day ''rms'' ''igm1'' 2020 11 ''sn'' ''f11'']
     ''rms'' ''igm1'' 5 (Date_yeardoy 2020 1) (Date_yeardoy 2020 30) =
     [(Date_yeardoy 2020 2, Date_yeardoy 2020 9, 8)]"
  by code_simp

section \<open>Properties of the receiver serial check\<close>







text \<open>
  Three station-days in a row whose receiver serial differs from the declared one, through
  the whole check: one range from the first midpoint to the last.
\<close>

lemma StnInfoRinexIntegrity_three_days:
  "StnInfoRinexIntegrity None
     [rinex_day ''rms'' ''igm1'' 2020 10 ''4711A'' ''f10'', rinex_day ''rms'' ''igm1'' 2020 11 ''4711a'' ''f11'',
      rinex_day ''rms'' ''igm1'' 2020 12 ''4711A'' ''f12'']
     [\<lparr>si_NetworkCode = ''rms'', si_StationCode = ''igm1'', DateStart = Date_yeardoy 2020 1,
       DateEnd = None, ReceiverCode = ''TRIMBLE NETR9'', ReceiverSerial = ''5024K'',
       AntennaCode = ''TRM59800.00'', RadomeCode = ''SCIT''\<rparr>]
     ''rms'' ''igm1'' (Date_yeardoy 2020 1) (Date_yeardoy 2020 30) =
   [WarningFrom (Date (datetime (Date_yeardoy 2020 10) + 43185)),
    MismatchLine (Date (datetime (Date_yeardoy 2020 12) + 43185)) ''4711a'' ''5024k'']"
  by code_simp



section \<open>Properties of process_date\<close>

lemma process_args_keeps_first:
  "1 \<le> i \<Longrightarrow> process_args P now allow_days i args dates = Inr ds \<Longrightarrow> ds ! 0 = dates ! 0"
proof (induction args arbitrary: i dates)
  case Nil
  then show ?case by simp
next
  case (Cons arg args)
  show ?case
  proof (cases "decode_date P now allow_days i arg")
    case (Inl e)
    with Cons.prems show ?thesis by simp
  next
    case (Inr r)
    show ?thesis
    proof (cases r)
      case None
      with Inr Cons.prems have "process_args P now allow_days (Suc i) args dates = Inr ds" by simp
      then show ?thesis by (intro Cons.IH [of "Suc i"]) auto
    next
      case (Some d)
      with Inr Cons.prems have "process_args P now allow_days (Suc i) args (dates[i := Some d]) = Inr ds"
        by (simp split: if_splits)
      then have "ds ! 0 = (dates[i := Some d]) ! 0" by (intro Cons.IH [of "Suc i"]) auto
      with Cons.prems(1) show ?thesis by simp
    qed
  qed
qed

lemma decode_date_days:
  assumes "arg \<noteq> []" "CHR ''.'' \<notin> set arg" "CHR ''_'' \<notin> set arg" "CHR ''/'' \<notin> set arg"
    "CHR ''-'' \<notin> set arg" "py_int arg = Inr n"
  shows "decode_date P now True 0 arg = Inr (Some (date_sub now n))"
  using assms by (simp add: decode_date_def try_bind_def)

lemma process_args_raises_ValueError:
  "process_args P now allow_days i args dates = Inl e \<Longrightarrow> \<exists>m. e = ValueError m"
proof (induction args arbitrary: i dates)
  case Nil
  then show ?case by simp
next
  case (Cons arg args)
  show ?case
  proof (cases "decode_date P now allow_days i arg")
    case (Inl e')
    with Cons.prems show ?thesis by (auto simp: could_not_decode_def)
  next
    case (Inr r)
    show ?thesis
    proof (cases r)
      case None
      with Inr Cons.prems have "process_args P now allow_days (Suc i) args dates = Inl e" by simp
      then show ?thesis by (rule Cons.IH)
    next
      case (Some d)
      show ?thesis
      proof (cases "i < length dates")
        case True
        with Some Inr Cons.prems
        have "process_args P now allow_days (Suc i) args (dates[i := Some d]) = Inl e" by simp
        then show ?thesis by (rule Cons.IH)
      next
        case False
        with Some Inr Cons.prems show ?thesis by (auto simp: could_not_decode_def)
      qed
    qed
  qed
qed

lemma decode_date_bare_later:
  assumes "b \<noteq> []" "CHR ''.'' \<notin> set b" "CHR ''_'' \<notin> set b" "CHR ''/'' \<notin> set b"
    "CHR ''-'' \<notin> set b" "1 \<le> i"
  shows "decode_date P now allow_days i b =
         Inl (ValueError ''Invalid input date: allow_days was set to False.'')"
  using assms by (simp add: decode_date_def)

lemma process_args_bare_later_raises:
  assumes "b \<in> set args" "b \<noteq> []" "CHR ''.'' \<notin> set b" "CHR ''_'' \<notin> set b"
    "CHR ''/'' \<notin> set b" "CHR ''-'' \<notin> set b" "1 \<le> i"
  shows "isl (process_args P now allow_days i args dates)"
  using assms(1,7)
proof (induction args arbitrary: i dates)
  case Nil
  then show ?case by simp
next
  case (Cons arg args)
  show ?case
  proof (cases "decode_date P now allow_days i arg")
    case (Inl e')
    then show ?thesis by simp
  next
    case (Inr r)
    have "arg \<noteq> b"
    proof
      assume "arg = b"
      with decode_date_bare_later [OF assms(2-6) Cons.prems(2), of P now allow_days] Inr
      show False by simp
    qed
    with Cons.prems(1) have mem: "b \<in> set args" by simp
    have next_i: "1 \<le> Suc i" by simp
    show ?thesis
    proof (cases r)
      case None
      with Inr Cons.IH [OF mem next_i, of dates] show ?thesis by simp
    next
      case (Some d)
      with Inr Cons.IH [OF mem next_i, of "dates[i := Some d]"] show ?thesis by simp
    qed
  qed
qed

text \<open>
  C10, as the code has it. When the first element of the date filter is a bare integer
  \<open>n\<close> (not empty, none of the characters . _ / - and accepted by \<open>int\<close>) and
  \<open>allow_days\<close> is set, process_date either raises ValueError or returns the current
  date minus \<open>n\<close> days as the start date; it returns when that element is the only
  one, and it raises ValueError whenever a later element is not empty and has none of the
  four characters, because days are accepted in the first place only. With no arguments
  and \<open>missing_input = 'fill'\<close> it returns 1980 day 1 and today.
\<close>

theorem process_date_days_back:
  assumes "arg \<noteq> []" "CHR ''.'' \<notin> set arg" "CHR ''_'' \<notin> set arg" "CHR ''/'' \<notin> set arg"
    "CHR ''-'' \<notin> set arg" "py_int arg = Inr n"
  shows "process_date P now (Some [arg]) missing_input True =
           Inr [Some (date_sub now n), if missing_input = ''fill'' then Some now else None] \<and>
         ((\<exists>m. process_date P now (Some (arg # rest)) missing_input True = Inl (ValueError m)) \<or>
          (\<exists>ds. process_date P now (Some (arg # rest)) missing_input True = Inr ds \<and>
                ds ! 0 = Some (date_sub now n))) \<and>
         ((\<exists>b \<in> set rest. b \<noteq> [] \<and> CHR ''.'' \<notin> set b \<and> CHR ''_'' \<notin> set b \<and>
                            CHR ''/'' \<notin> set b \<and> CHR ''-'' \<notin> set b) \<longrightarrow>
          (\<exists>m. process_date P now (Some (arg # rest)) missing_input True = Inl (ValueError m))) \<and>
         process_date P now None ''fill'' allow_days = Inr [Some (Date_yeardoy 1980 1), Some now] \<and>
         process_date P now (Some []) ''fill'' allow_days = Inr [Some (Date_yeardoy 1980 1), Some now]"
proof (intro conjI impI)
  note dec = decode_date_days [OF assms, of P now]
  let ?dates = "if missing_input = ''fill'' then [Some (Date_yeardoy 1980 1), Some now] else [None, None]"
  have unf: "process_date P now (Some (arg # rest)) missing_input True =
             process_args P now True (Suc 0) rest (?dates[0 := Some (date_sub now n)])"
    by (simp add: process_date_def dec)
  show "process_date P now (Some [arg]) missing_input True =
           Inr [Some (date_sub now n), if missing_input = ''fill'' then Some now else None]"
    by (simp add: process_date_def dec)
  show "process_date P now None ''fill'' allow_days = Inr [Some (Date_yeardoy 1980 1), Some now]"
    by (simp add: process_date_def)
  show "process_date P now (Some []) ''fill'' allow_days = Inr [Some (Date_yeardoy 1980 1), Some now]"
    by (simp add: process_date_def)
  show "(\<exists>m. process_date P now (Some (arg # rest)) missing_input True = Inl (ValueError m)) \<or>
          (\<exists>ds. process_date P now (Some (arg # rest)) missing_input True = Inr ds \<and>
                ds ! 0 = Some (date_sub now n))"
  proof (cases "process_args P now True (Suc 0) rest (?dates[0 := Some (date_sub now n)])")
    case (Inl e)
    from process_args_raises_ValueError [OF Inl] Inl show ?thesis
      by (auto simp only: unf)
  next
    case (Inr ds)
    then have "ds ! 0 = (?dates[0 := Some (date_sub now n)]) ! 0"
      by (intro process_args_keeps_first [of "Suc 0"]) auto
    then have "ds ! 0 = Some (date_sub now n)" by simp
    with Inr show ?thesis by (simp only: unf) simp
  qed
next
  let ?dates = "if missing_input = ''fill'' then [Some (Date_yeardoy 1980 1), Some now] else [None, None]"
  note dec = decode_date_days [OF assms, of P now]
  have unf: "process_date P now (Some (arg # rest)) missing_input True =
             process_args P now True (Suc 0) rest (?dates[0 := Some (date_sub now n)])"
    by (simp add: process_date_def dec)
  assume "\<exists>b \<in> set rest. b \<noteq> [] \<and> CHR ''.'' \<notin> set b \<and> CHR ''_'' \<notin> set b \<and>
                            CHR ''/'' \<notin> set b \<and> CHR ''-'' \<notin> set b"
  then obtain b where b: "b \<in> set rest" "b \<noteq> []" "CHR ''.'' \<notin> set b" "CHR ''_'' \<notin> set b"
    "CHR ''/'' \<notin> set b" "CHR ''-'' \<notin> set b" by blast
  have "isl (process_args P now True (Suc 0) rest (?dates[0 := Some (date_sub now n)]))"
    by (rule process_args_bare_later_raises [OF b]) simp
  then obtain e where e: "process_args P now True (Suc 0) rest (?dates[0 := Some (date_sub now n)]) = Inl e"
    by (cases "process_args P now True (Suc 0) rest (?dates[0 := Some (date_sub now n)])") auto
  from process_args_raises_ValueError [OF e] e
  show "\<exists>m. process_date P now (Some (arg # rest)) missing_input True = Inl (ValueError m)"
    by (auto simp only: unf)
qed

theorem process_date_days_back_witness:
  "''5'' \<noteq> [] \<and> CHR ''.'' \<notin> set ''5'' \<and> CHR ''_'' \<notin> set ''5'' \<and> CHR ''/'' \<notin> set ''5'' \<and>
   CHR ''-'' \<notin> set ''5'' \<and> py_int ''5'' = Inr 5 \<and>
   process_date day_count_pyDate (Date_mjd 59000) (Some [''5'']) ''fill'' True =
     Inr [Some (date_sub (Date_mjd 59000) 5), Some (Date_mjd 59000)] \<and>
   (\<exists>b \<in> set [''2020_10'', ''7'']. b \<noteq> [] \<and> CHR ''.'' \<notin> set b \<and> CHR ''_'' \<notin> set b \<and>
                            CHR ''/'' \<notin> set b \<and> CHR ''-'' \<notin> set b) \<and>
   (\<exists>m. process_date day_count_pyDate (Date_mjd 59000) (Some [''5'', ''2020_10'', ''7'']) ''fill'' True =
          Inl (ValueError m)) \<and>
   process_date day_count_pyDate (Date_mjd 59000) (Some [''5'', ''2020_10'']) ''fill'' True =
     Inr [Some (Date_mjd 58995), Some (Date_yeardoy 2020 10)] \<and>
   [Some (Date_mjd 58995), Some (Date_yeardoy 2020 10)] ! 0 = Some (date_sub (Date_mjd 59000) 5)"
proof -
  have i: "py_int ''5'' = Inr 5" by code_simp
  have two: "process_date day_count_pyDate (Date_mjd 59000) (Some [''5'', ''2020_10'']) ''fill'' True =
     Inr [Some (Date_mjd 58995), Some (Date_yeardoy 2020 10)]" by code_simp
  have h: "''5'' \<noteq> []" "CHR ''.'' \<notin> set ''5''" "CHR ''_'' \<notin> set ''5''" "CHR ''/'' \<notin> set ''5''"
    "CHR ''-'' \<notin> set ''5''" by simp_all
  have later: "\<exists>b \<in> set [''2020_10'', ''7'']. b \<noteq> [] \<and> CHR ''.'' \<notin> set b \<and> CHR ''_'' \<notin> set b \<and>
                            CHR ''/'' \<notin> set b \<and> CHR ''-'' \<notin> set b"
    by simp
  note t = process_date_days_back [OF h i, of day_count_pyDate "Date_mjd 59000" "''fill''" "[''2020_10'']" True]
  note t3 = process_date_days_back [OF h i, of day_count_pyDate "Date_mjd 59000" "''fill''" "[''2020_10'', ''7'']" True]
  from t have one: "process_date day_count_pyDate (Date_mjd 59000) (Some [''5'']) ''fill'' True =
     Inr [Some (date_sub (Date_mjd 59000) 5), Some (Date_mjd 59000)]" by simp
  from t two have first: "[Some (Date_mjd 58995), Some (Date_yeardoy 2020 10)] ! 0 = Some (date_sub (Date_mjd 59000) 5)"
    by auto
  from t3 later have three: "\<exists>m. process_date day_count_pyDate (Date_mjd 59000)
      (Some [''5'', ''2020_10'', ''7'']) ''fill'' True = Inl (ValueError m)"
    by blast
  from h i one later three two first show ?thesis by blast
qed

theorem process_date_second_integer_counterexample:
  "process_date day_count_pyDate (Date_mjd 59000) (Some [''5'', ''7'']) ''fill'' True =
     Inl (could_not_decode (ValueError ''Invalid input date: allow_days was set to False.''))"
  by code_simp

section \<open>Properties of the spatial coherence check\<close>

text \<open>
  With one candidate and no closer station, the warning depends on both codes differing.
\<close>

lemma CheckSpatialCoherence_soln_single:
  "CheckSpatialCoherence_soln NetworkCode StationCode (True, [m], []) =
     Inr (if st_NetworkCode m \<noteq> NetworkCode \<and> st_StationCode m \<noteq> StationCode
          then [OnlyCandidate (NetworkCode, StationCode) (st_NetworkCode m, st_StationCode m)]
          else [])"
  by (simp add: CheckSpatialCoherence_soln_def try_bind_def item_def)

text \<open>
  A match of the spatial check carries the declared station code, so the test on both
  codes differing never holds: the warning of the only candidate is never written.
\<close>

lemma verify_spatial_coherence_match:
  assumes "verify_spatial_coherence stns StationCode = (True, match, closest_stn)"
  shows "match \<noteq> [] \<and> st_StationCode (hd match) = StationCode"
proof -
  let ?found = "filter (\<lambda>s. distance s \<le> 100) stns"
  let ?named = "filter (\<lambda>s. st_StationCode s = StationCode) ?found"
  from assms have "(length ?found = 1 \<and> st_StationCode (hd ?found) = StationCode \<and> match = ?found) \<or>
                   (length ?named = 1 \<and> match = ?named)"
    by (auto simp: verify_spatial_coherence_def Let_def split: if_splits)
  then show ?thesis
  proof
    assume "length ?found = 1 \<and> st_StationCode (hd ?found) = StationCode \<and> match = ?found"
    then show ?thesis by (cases ?found) auto
  next
    assume n: "length ?named = 1 \<and> match = ?named"
    then obtain m where m: "?named = [m]" by (cases ?named) auto
    then have "m \<in> set ?named" by simp
    then have "st_StationCode m = StationCode" by simp
    with n m show ?thesis by simp
  qed
qed

lemma CheckSpatialCoherence_never_only_candidate:
  "CheckSpatialCoherence_soln NetworkCode StationCode (verify_spatial_coherence stns StationCode)
     \<noteq> Inr [OnlyCandidate a b]"
proof (cases "verify_spatial_coherence stns StationCode")
  case (fields Result match closest_stn)
  show ?thesis
  proof (cases Result)
    case True
    with fields verify_spatial_coherence_match [of stns StationCode match closest_stn]
    obtain m ms where "match = m # ms" "st_StationCode m = StationCode"
      by (cases match) auto
    with fields True show ?thesis
      by (simp add: CheckSpatialCoherence_soln_def try_bind_def item_def)
  next
    case False
    with fields show ?thesis
      by (auto simp: CheckSpatialCoherence_soln_def try_bind_def item_def)
  qed
qed

text \<open>
  C4. The solution is declared for rms.aaaa; the only station within 100 m is igs.aaaa,
  12 m away (rms.aaaa itself is 25 km away). The spatial check, which is given the station
  code only, answers with a match. The candidate's identity differs from the declared
  one, and nothing is written: the test asks for the network code and the station code to
  differ both. A single candidate with another station code, rms.bbbb, is reported as the
  best match.
\<close>

theorem CheckSpatialCoherence_other_network_silent:
  "verify_spatial_coherence
        [\<lparr>st_NetworkCode = ''igs'', st_StationCode = ''aaaa'', distance = 12\<rparr>,
         \<lparr>st_NetworkCode = ''rms'', st_StationCode = ''aaaa'', distance = 25000\<rparr>] ''aaaa'' =
     (True, [\<lparr>st_NetworkCode = ''igs'', st_StationCode = ''aaaa'', distance = 12\<rparr>], []) \<and>
   CheckSpatialCoherence_soln ''rms'' ''aaaa''
     (verify_spatial_coherence
        [\<lparr>st_NetworkCode = ''igs'', st_StationCode = ''aaaa'', distance = 12\<rparr>,
         \<lparr>st_NetworkCode = ''rms'', st_StationCode = ''aaaa'', distance = 25000\<rparr>] ''aaaa'') = Inr [] \<and>
   CheckSpatialCoherence_soln ''rms'' ''aaaa''
     (verify_spatial_coherence
        [\<lparr>st_NetworkCode = ''rms'', st_StationCode = ''bbbb'', distance = 12\<rparr>,
         \<lparr>st_NetworkCode = ''rms'', st_StationCode = ''aaaa'', distance = 25000\<rparr>] ''aaaa'') =
     Inr [BestMatch \<lparr>st_NetworkCode = ''rms'', st_StationCode = ''bbbb'', distance = 12\<rparr>]"
  by (simp add: CheckSpatialCoherence_soln_def verify_spatial_coherence_def try_bind_def item_def)

section \<open>Properties of StnInfoCheck\<close>

text \<open>
  With two records or more the comparison of the first pair raises, whatever the records
  and the rows are.
\<close>

lemma StnInfoCheck_pairs_raises:
  "length recs > 1 \<Longrightarrow>
   StnInfoCheck_pairs tbl_rinex_proc tbl_stationinfo NetworkCode StationCode
     (zip (butlast recs) (tl recs)) [] = Inl TypeError"
proof (cases recs)
  case Nil
  assume "length recs > 1"
  with Nil show ?thesis by simp
next
  case (Cons r rest)
  assume "length recs > 1"
  with Cons obtain r' rest' where "rest = r' # rest'" by (cases rest) auto
  with Cons show ?thesis
    by (simp add: StnInfoCheck_pair_def total_seconds_def Let_def)
qed

text \<open>
  C5. Two records of rms.igm1, the first ending on day 10 of 2020 and the second starting
  on day 20, and a row of the station on day 15, in the gap, which no record covers.
  The comparison with one second is made on the method \<open>total_seconds\<close> itself and
  raises TypeError: the rows in the gap are not counted and no gap is reported. The same
  holds for two records without a gap.
\<close>

theorem StnInfoCheck_gap_comparison_raises:
  "StnInfoCheck_gaps
     [rinex_day ''rms'' ''igm1'' 2020 15 ''sn'' ''f15'']
     [\<lparr>si_NetworkCode = ''rms'', si_StationCode = ''igm1'', DateStart = Date_yeardoy 2020 1,
       DateEnd = Some (Date_yeardoy 2020 10), ReceiverCode = ''TRIMBLE NETR9'', ReceiverSerial = ''5024K'',
       AntennaCode = ''TRM59800.00'', RadomeCode = ''SCIT''\<rparr>,
      \<lparr>si_NetworkCode = ''rms'', si_StationCode = ''igm1'', DateStart = Date_yeardoy 2020 20,
       DateEnd = None, ReceiverCode = ''TRIMBLE NETR9'', ReceiverSerial = ''5024K'',
       AntennaCode = ''TRM59800.00'', RadomeCode = ''SCIT''\<rparr>]
     ''rms'' ''igm1'' = Inl TypeError \<and>
   StnInfoCheck_gaps
     []
     [\<lparr>si_NetworkCode = ''rms'', si_StationCode = ''igm1'', DateStart = Date_yeardoy 2020 1,
       DateEnd = Some (Date_yeardoy 2020 10), ReceiverCode = ''TRIMBLE NETR9'', ReceiverSerial = ''5024K'',
       AntennaCode = ''TRM59800.00'', RadomeCode = ''SCIT''\<rparr>,
      \<lparr>si_NetworkCode = ''rms'', si_StationCode = ''igm1'', DateStart = Date_yeardoy 2020 10,
       DateEnd = None, ReceiverCode = ''TRIMBLE NETR9'', ReceiverSerial = ''5024K'',
       AntennaCode = ''TRM59800.00'', RadomeCode = ''SCIT''\<rparr>]
     ''rms'' ''igm1'' = Inl TypeError"
  by code_simp

section \<open>Properties of the dispatcher and of check_rinex_stn\<close>











section \<open>Properties of RenameStation\<close>

lemma RenameStation_file_stages:
  fixes env n s dn ds r w
  defines "F \<equiv> set (rn_failing env r)"
      and "sp \<equiv> fst (path_split (path_join (rn_archive_path env)
                  (rn_build_rinex_path env n s (ObservationYear r) (ObservationDOY r) (Filename r))))"
      and "sf \<equiv> snd (path_split (path_join (rn_archive_path env)
                  (rn_build_rinex_path env n s (ObservationYear r) (ObservationDOY r) (Filename r))))"
  defines "dp \<equiv> replace n dn (replace s ds sp)"
      and "w2 \<equiv> (begin_transac w)\<lparr>db_rinex := update_rinex n s dn ds r
                     (replace ''d.Z'' ''o'' (replace s ds sf)) (db_rinex (begin_transac w))\<rparr>"
  defines "w3 \<equiv> w2\<lparr>dirs := insert dp (dirs w2)\<rparr>"
  defines "w4 \<equiv> w3\<lparr>files := insert (path_join dp (replace s ds sf)) (files w3 - {path_join sp sf})\<rparr>"
  shows "RenameStation_file env n s dn ds r w =
     (if BuildPath \<in> F then (Some (op_error BuildPath), w)
      else if Update \<in> F then (Some (op_error Update), begin_transac w)
      else if dp \<notin> dirs w2 \<and> Makedirs \<in> F then (Some (op_error Makedirs), w2)
      else if Move \<in> F \<or> path_join sp sf \<notin> files w3 then (Some (op_error Move), w3)
      else if Commit \<in> F then (Some (op_error Commit), w4)
      else stninfo_transfer env n s dn ds r (commit_transac w4))"
  unfolding F_def sp_def sf_def dp_def w2_def w3_def w4_def RenameStation_file_def Let_def
  by (rule refl)

lemma RenameStation_loop_append:
  "RenameStation_loop env n s dn ds (pre @ r # post) w =
     (case RenameStation_loop env n s dn ds pre w of
        (Some e, w') \<Rightarrow> (Some e, w')
      | (None, wp) \<Rightarrow>
          (case RenameStation_file env n s dn ds r wp of
             (Some e, w') \<Rightarrow> (Some e, w')
           | (None, w') \<Rightarrow> RenameStation_loop env n s dn ds post w'))"
proof (induction pre arbitrary: w)
  case Nil
  show ?case by simp
next
  case (Cons a pre)
  obtain x w1 where f: "RenameStation_file env n s dn ds a w = (x, w1)"
    by (cases "RenameStation_file env n s dn ds a w") auto
  show ?case
  proof (cases x)
    case None
    with f Cons.IH [of w1] show ?thesis by simp
  next
    case (Some e)
    with f show ?thesis by simp
  qed
qed

lemma stninfo_transfer_keeps:
  assumes "stninfo_transfer env n s dn ds r w = (x, w')"
  shows "db_rinex w' = db_rinex w \<and> files w' = files w \<and> transac w' = transac w \<and> dirs w' = dirs w"
proof -
  have "w' = w \<or> (\<exists>t. w' = w\<lparr>db_stationinfo := t\<rparr>) \<or> (\<exists>msgs. w' = w\<lparr>out := msgs\<rparr>)"
    using assms unfolding stninfo_transfer_def Let_def
    by (auto split: if_splits sum.splits)
  then show ?thesis by auto
qed

lemma RenameStation_file_early:
  assumes tr: "transac w = None"
      and early: "BuildPath \<in> set (rn_failing env r) \<or> Update \<in> set (rn_failing env r) \<or>
           Move \<in> set (rn_failing env r) \<or> src_location env n s r \<notin> files w"
  shows "\<exists>ex w'. RenameStation_file env n s dn ds r w = (Some ex, w') \<and>
           db_rinex (rollback_transac w') = db_rinex w \<and>
           files (rollback_transac w') = files w \<and>
           db_stationinfo (rollback_transac w') = db_stationinfo w \<and>
           transac (rollback_transac w') = None"
proof -
  define F where "F = set (rn_failing env r)"
  define sp where "sp = fst (path_split (path_join (rn_archive_path env)
                  (rn_build_rinex_path env n s (ObservationYear r) (ObservationDOY r) (Filename r))))"
  define sf where "sf = snd (path_split (path_join (rn_archive_path env)
                  (rn_build_rinex_path env n s (ObservationYear r) (ObservationDOY r) (Filename r))))"
  define dp where "dp = replace n dn (replace s ds sp)"
  define w2 where "w2 = (begin_transac w)\<lparr>db_rinex := update_rinex n s dn ds r
                     (replace ''d.Z'' ''o'' (replace s ds sf)) (db_rinex (begin_transac w))\<rparr>"
  define w3 where "w3 = w2\<lparr>dirs := insert dp (dirs w2)\<rparr>"
  have st: "RenameStation_file env n s dn ds r w =
     (if BuildPath \<in> F then (Some (op_error BuildPath), w)
      else if Update \<in> F then (Some (op_error Update), begin_transac w)
      else if dp \<notin> dirs w2 \<and> Makedirs \<in> F then (Some (op_error Makedirs), w2)
      else if Move \<in> F \<or> path_join sp sf \<notin> files w3 then (Some (op_error Move), w3)
      else if Commit \<in> F then (Some (op_error Commit),
              w3\<lparr>files := insert (path_join dp (replace s ds sf)) (files w3 - {path_join sp sf})\<rparr>)
      else stninfo_transfer env n s dn ds r (commit_transac
              (w3\<lparr>files := insert (path_join dp (replace s ds sf)) (files w3 - {path_join sp sf})\<rparr>)))"
    unfolding F_def sp_def sf_def dp_def w2_def w3_def by (rule RenameStation_file_stages)
  have src: "src_location env n s r = path_join sp sf"
    unfolding src_location_def sp_def sf_def Let_def by (rule refl)
  have r0: "db_rinex (rollback_transac w) = db_rinex w \<and> files (rollback_transac w) = files w \<and>
            db_stationinfo (rollback_transac w) = db_stationinfo w \<and> transac (rollback_transac w) = None"
    using tr by (simp add: rollback_transac_def)
  have r1: "db_rinex (rollback_transac (begin_transac w)) = db_rinex w \<and>
            files (rollback_transac (begin_transac w)) = files w \<and>
            db_stationinfo (rollback_transac (begin_transac w)) = db_stationinfo w \<and>
            transac (rollback_transac (begin_transac w)) = None"
    by (simp add: rollback_transac_def begin_transac_def)
  have r2: "db_rinex (rollback_transac w2) = db_rinex w \<and> files (rollback_transac w2) = files w \<and>
            db_stationinfo (rollback_transac w2) = db_stationinfo w \<and> transac (rollback_transac w2) = None"
    by (simp add: w2_def rollback_transac_def begin_transac_def)
  have r3: "db_rinex (rollback_transac w3) = db_rinex w \<and> files (rollback_transac w3) = files w \<and>
            db_stationinfo (rollback_transac w3) = db_stationinfo w \<and> transac (rollback_transac w3) = None"
    by (simp add: w3_def w2_def rollback_transac_def begin_transac_def)
  have f3: "files w3 = files w"
    by (simp add: w3_def w2_def begin_transac_def)
  from early have early': "BuildPath \<in> F \<or> Update \<in> F \<or> Move \<in> F \<or> path_join sp sf \<notin> files w3"
    by (simp only: F_def src f3)
  consider (a) "BuildPath \<in> F"
    | (b) "BuildPath \<notin> F" "Update \<in> F"
    | (c) "BuildPath \<notin> F" "Update \<notin> F" "dp \<notin> dirs w2 \<and> Makedirs \<in> F"
    | (d) "BuildPath \<notin> F" "Update \<notin> F" "\<not> (dp \<notin> dirs w2 \<and> Makedirs \<in> F)"
          "Move \<in> F \<or> path_join sp sf \<notin> files w3"
    using early' by blast
  then show ?thesis
  proof cases
    case a
    then have "RenameStation_file env n s dn ds r w = (Some (op_error BuildPath), w)"
      by (simp add: st)
    with r0 show ?thesis by blast
  next
    case b
    then have "RenameStation_file env n s dn ds r w = (Some (op_error Update), begin_transac w)"
      by (simp add: st)
    with r1 show ?thesis by blast
  next
    case c
    then have "RenameStation_file env n s dn ds r w = (Some (op_error Makedirs), w2)"
      by (simp add: st)
    with r2 show ?thesis by blast
  next
    case d
    then have "RenameStation_file env n s dn ds r w = (Some (op_error Move), w3)"
      unfolding st by auto
    with r3 show ?thesis by blast
  qed
qed


lemma RenameStation_file_done:
  assumes fin: "RenameStation_file env n s dn ds r w = (None, w')"
  shows "transac w' = None \<and>
         src_location env n s r \<in> files w \<and>
         files w' = insert (dest_location env n s dn ds r) (files w - {src_location env n s r}) \<and>
         db_rinex w' = update_rinex n s dn ds r
            (replace ''d.Z'' ''o'' (replace s ds
               (snd (path_split (path_join (rn_archive_path env)
                  (rn_build_rinex_path env n s (ObservationYear r) (ObservationDOY r) (Filename r)))))))
            (db_rinex w)"
proof -
  define F where "F = set (rn_failing env r)"
  define sp where "sp = fst (path_split (path_join (rn_archive_path env)
                  (rn_build_rinex_path env n s (ObservationYear r) (ObservationDOY r) (Filename r))))"
  define sf where "sf = snd (path_split (path_join (rn_archive_path env)
                  (rn_build_rinex_path env n s (ObservationYear r) (ObservationDOY r) (Filename r))))"
  define dp where "dp = replace n dn (replace s ds sp)"
  define w2 where "w2 = (begin_transac w)\<lparr>db_rinex := update_rinex n s dn ds r
                     (replace ''d.Z'' ''o'' (replace s ds sf)) (db_rinex (begin_transac w))\<rparr>"
  define w3 where "w3 = w2\<lparr>dirs := insert dp (dirs w2)\<rparr>"
  define w4 where "w4 = w3\<lparr>files := insert (path_join dp (replace s ds sf)) (files w3 - {path_join sp sf})\<rparr>"
  have st: "RenameStation_file env n s dn ds r w =
     (if BuildPath \<in> F then (Some (op_error BuildPath), w)
      else if Update \<in> F then (Some (op_error Update), begin_transac w)
      else if dp \<notin> dirs w2 \<and> Makedirs \<in> F then (Some (op_error Makedirs), w2)
      else if Move \<in> F \<or> path_join sp sf \<notin> files w3 then (Some (op_error Move), w3)
      else if Commit \<in> F then (Some (op_error Commit), w4)
      else stninfo_transfer env n s dn ds r (commit_transac w4))"
    unfolding F_def sp_def sf_def dp_def w2_def w3_def w4_def by (rule RenameStation_file_stages)
  have src: "src_location env n s r = path_join sp sf"
    unfolding src_location_def sp_def sf_def Let_def by (rule refl)
  have dst: "dest_location env n s dn ds r = path_join dp (replace s ds sf)"
    unfolding dest_location_def dp_def sp_def sf_def Let_def by (rule refl)
  from fin have "(if BuildPath \<in> F then (Some (op_error BuildPath), w)
      else if Update \<in> F then (Some (op_error Update), begin_transac w)
      else if dp \<notin> dirs w2 \<and> Makedirs \<in> F then (Some (op_error Makedirs), w2)
      else if Move \<in> F \<or> path_join sp sf \<notin> files w3 then (Some (op_error Move), w3)
      else if Commit \<in> F then (Some (op_error Commit), w4)
      else stninfo_transfer env n s dn ds r (commit_transac w4)) = (None, w')"
    by (simp only: st)
  then have here: "path_join sp sf \<in> files w3"
    and tr: "stninfo_transfer env n s dn ds r (commit_transac w4) = (None, w')"
    by (auto split: if_splits)
  from stninfo_transfer_keeps [OF tr]
  have k: "db_rinex w' = db_rinex (commit_transac w4)" "files w' = files (commit_transac w4)"
    "transac w' = transac (commit_transac w4)"
    by auto
  have f3: "files w3 = files w"
    by (simp add: w3_def w2_def begin_transac_def)
  have c4: "transac (commit_transac w4) = None"
    "files (commit_transac w4) = insert (path_join dp (replace s ds sf)) (files w - {path_join sp sf})"
    "db_rinex (commit_transac w4) = update_rinex n s dn ds r (replace ''d.Z'' ''o'' (replace s ds sf)) (db_rinex w)"
    by (simp_all add: commit_transac_def w4_def w3_def w2_def begin_transac_def)
  from here have "src_location env n s r \<in> files w"
    by (simp only: src f3)
  with k c4 show ?thesis
    by (simp only: src dst sf_def)
qed

lemma RenameStation_loop_transac:
  "transac w = None \<Longrightarrow> RenameStation_loop env n s dn ds rows w = (None, w') \<Longrightarrow> transac w' = None"
proof (induction rows arbitrary: w)
  case Nil
  then show ?case by simp
next
  case (Cons r rows)
  from Cons.prems(2) obtain w1 where f: "RenameStation_file env n s dn ds r w = (None, w1)"
    and l: "RenameStation_loop env n s dn ds rows w1 = (None, w')"
    by (auto split: prod.splits option.splits)
  from f have "transac w1 = None" using RenameStation_file_done by blast
  from this l show ?case by (rule Cons.IH)
qed

text \<open>
  C1, as the code has it. The queue is the rows of the source station in the range, and
  \<open>wp\<close> is the state after the files before file \<open>r\<close> have been migrated.
  When the migration of \<open>r\<close> fails before its file has been moved (building the
  path, the update of the row or the move raises, or the file is not in the archive),
  RenameStation re-raises and leaves the rinex table, the files of the archive and the
  station-info table exactly as they were after the earlier files: these stay migrated,
  the row and the file of \<open>r\<close> are as before its migration began, the later files
  are untouched, and no transaction is left open. A file that has been migrated is at its
  destination location and its row carries the destination identity.
\<close>

theorem RenameStation_failure_before_move:
  assumes dest: "(dn, ds) \<in> set (db_stations w)"
      and tr: "transac w = None"
      and queue: "filter (in_range n s start_date end_date) (db_rinex w) = pre @ r # post"
      and before: "RenameStation_loop env n s dn ds pre w = (None, wp)"
      and early: "BuildPath \<in> set (rn_failing env r) \<or> Update \<in> set (rn_failing env r) \<or>
           Move \<in> set (rn_failing env r) \<or> src_location env n s r \<notin> files wp"
  shows "(\<exists>ex w'. RenameStation env w n s dn ds start_date end_date = (Some ex, w') \<and>
            db_rinex w' = db_rinex wp \<and> files w' = files wp \<and>
            db_stationinfo w' = db_stationinfo wp \<and> transac w' = None) \<and>
         (\<forall>r0 w0 w1. RenameStation_file env n s dn ds r0 w0 = (None, w1) \<longrightarrow>
            src_location env n s r0 \<in> files w0 \<and>
            files w1 = insert (dest_location env n s dn ds r0) (files w0 - {src_location env n s r0}) \<and>
            db_rinex w1 = update_rinex n s dn ds r0
              (replace ''d.Z'' ''o'' (replace s ds
                 (snd (path_split (path_join (rn_archive_path env)
                    (rn_build_rinex_path env n s (ObservationYear r0) (ObservationDOY r0) (Filename r0)))))))
              (db_rinex w0))"
proof
  from tr before have trp: "transac wp = None" by (rule RenameStation_loop_transac)
  from RenameStation_file_early [OF trp early, of dn ds]
  obtain ex w1 where f: "RenameStation_file env n s dn ds r wp = (Some ex, w1)"
    and keep: "db_rinex (rollback_transac w1) = db_rinex wp" "files (rollback_transac w1) = files wp"
      "db_stationinfo (rollback_transac w1) = db_stationinfo wp" "transac (rollback_transac w1) = None"
    by blast
  have "RenameStation_loop env n s dn ds (pre @ r # post) w = (Some ex, w1)"
    by (simp add: RenameStation_loop_append before f)
  with dest queue have "RenameStation env w n s dn ds start_date end_date = (Some ex, rollback_transac w1)"
    by (simp add: RenameStation_def)
  with keep show "\<exists>ex w'. RenameStation env w n s dn ds start_date end_date = (Some ex, w') \<and>
            db_rinex w' = db_rinex wp \<and> files w' = files wp \<and>
            db_stationinfo w' = db_stationinfo wp \<and> transac w' = None"
    by blast
next
  show "\<forall>r0 w0 w1. RenameStation_file env n s dn ds r0 w0 = (None, w1) \<longrightarrow>
            src_location env n s r0 \<in> files w0 \<and>
            files w1 = insert (dest_location env n s dn ds r0) (files w0 - {src_location env n s r0}) \<and>
            db_rinex w1 = update_rinex n s dn ds r0
              (replace ''d.Z'' ''o'' (replace s ds
                 (snd (path_split (path_join (rn_archive_path env)
                    (rn_build_rinex_path env n s (ObservationYear r0) (ObservationDOY r0) (Filename r0)))))))
              (db_rinex w0)"
    using RenameStation_file_done by blast
qed

theorem RenameStation_commit_failure_counterexample:
  "fst (RenameStation (merge_env (fails_at ''aaaa0020.20d.Z'' Commit))
          (merge_world [open_record ''rms'' ''bbbb'' 2019 1])
          ''rms'' ''aaaa'' ''rms'' ''bbbb'' (Date_yeardoy 2020 1) (Date_yeardoy 2020 30)) =
     Some (CatalogError ''catalog'') \<and>
   map Filename (db_rinex (snd (RenameStation (merge_env (fails_at ''aaaa0020.20d.Z'' Commit))
          (merge_world [open_record ''rms'' ''bbbb'' 2019 1])
          ''rms'' ''aaaa'' ''rms'' ''bbbb'' (Date_yeardoy 2020 1) (Date_yeardoy 2020 30)))) =
     [''bbbb0010.20o'', ''aaaa0020.20d.Z'', ''aaaa0030.20d.Z''] \<and>
   files (snd (RenameStation (merge_env (fails_at ''aaaa0020.20d.Z'' Commit))
          (merge_world [open_record ''rms'' ''bbbb'' 2019 1])
          ''rms'' ''aaaa'' ''rms'' ''bbbb'' (Date_yeardoy 2020 1) (Date_yeardoy 2020 30))) =
     {''/archive/rms/bbbb/bbbb0010.20d.Z'', ''/archive/rms/bbbb/bbbb0020.20d.Z'',
      ''/archive/rms/aaaa/aaaa0030.20d.Z''}"
  by code_simp


theorem RenameStation_failure_before_move_witness:
  "(''rms'', ''bbbb'') \<in> set (db_stations (merge_world [open_record ''rms'' ''bbbb'' 2019 1])) \<and>
   filter (in_range ''rms'' ''aaaa'' (Date_yeardoy 2020 1) (Date_yeardoy 2020 30))
     (db_rinex (merge_world [open_record ''rms'' ''bbbb'' 2019 1])) =
     [rinex_day ''rms'' ''aaaa'' 2020 1 ''sn'' ''aaaa0010.20d.Z''] @
     rinex_day ''rms'' ''aaaa'' 2020 2 ''sn'' ''aaaa0020.20d.Z'' #
     [rinex_day ''rms'' ''aaaa'' 2020 3 ''sn'' ''aaaa0030.20d.Z''] \<and>
   fst (RenameStation_loop (merge_env (fails_at ''aaaa0020.20d.Z'' Move)) ''rms'' ''aaaa'' ''rms'' ''bbbb''
          [rinex_day ''rms'' ''aaaa'' 2020 1 ''sn'' ''aaaa0010.20d.Z'']
          (merge_world [open_record ''rms'' ''bbbb'' 2019 1])) = None \<and>
   Move \<in> set (rn_failing (merge_env (fails_at ''aaaa0020.20d.Z'' Move))
                   (rinex_day ''rms'' ''aaaa'' 2020 2 ''sn'' ''aaaa0020.20d.Z'')) \<and>
   (\<exists>ex w'. RenameStation (merge_env (fails_at ''aaaa0020.20d.Z'' Move))
              (merge_world [open_record ''rms'' ''bbbb'' 2019 1])
              ''rms'' ''aaaa'' ''rms'' ''bbbb'' (Date_yeardoy 2020 1) (Date_yeardoy 2020 30) = (Some ex, w') \<and>
      db_rinex w' = db_rinex (snd (RenameStation_loop (merge_env (fails_at ''aaaa0020.20d.Z'' Move))
          ''rms'' ''aaaa'' ''rms'' ''bbbb'' [rinex_day ''rms'' ''aaaa'' 2020 1 ''sn'' ''aaaa0010.20d.Z'']
          (merge_world [open_record ''rms'' ''bbbb'' 2019 1]))) \<and>
      files w' = files (snd (RenameStation_loop (merge_env (fails_at ''aaaa0020.20d.Z'' Move))
          ''rms'' ''aaaa'' ''rms'' ''bbbb'' [rinex_day ''rms'' ''aaaa'' 2020 1 ''sn'' ''aaaa0010.20d.Z'']
          (merge_world [open_record ''rms'' ''bbbb'' 2019 1])))) \<and>
   map Filename (db_rinex (snd (RenameStation (merge_env (fails_at ''aaaa0020.20d.Z'' Move))
          (merge_world [open_record ''rms'' ''bbbb'' 2019 1])
          ''rms'' ''aaaa'' ''rms'' ''bbbb'' (Date_yeardoy 2020 1) (Date_yeardoy 2020 30)))) =
     [''bbbb0010.20o'', ''aaaa0020.20d.Z'', ''aaaa0030.20d.Z''] \<and>
   files (snd (RenameStation (merge_env (fails_at ''aaaa0020.20d.Z'' Move))
          (merge_world [open_record ''rms'' ''bbbb'' 2019 1])
          ''rms'' ''aaaa'' ''rms'' ''bbbb'' (Date_yeardoy 2020 1) (Date_yeardoy 2020 30))) =
     {''/archive/rms/bbbb/bbbb0010.20d.Z'', ''/archive/rms/aaaa/aaaa0020.20d.Z'',
      ''/archive/rms/aaaa/aaaa0030.20d.Z''}"
proof -
  let ?env = "merge_env (fails_at ''aaaa0020.20d.Z'' Move)"
  let ?w = "merge_world [open_record ''rms'' ''bbbb'' 2019 1]"
  let ?r1 = "rinex_day ''rms'' ''aaaa'' 2020 1 ''sn'' ''aaaa0010.20d.Z''"
  let ?r2 = "rinex_day ''rms'' ''aaaa'' 2020 2 ''sn'' ''aaaa0020.20d.Z''"
  let ?r3 = "rinex_day ''rms'' ''aaaa'' 2020 3 ''sn'' ''aaaa0030.20d.Z''"
  let ?loop = "RenameStation_loop ?env ''rms'' ''aaaa'' ''rms'' ''bbbb'' [?r1] ?w"
  have dest: "(''rms'', ''bbbb'') \<in> set (db_stations ?w)"
    by (simp add: merge_world_def)
  have tr: "transac ?w = None"
    by (simp add: merge_world_def)
  have queue: "filter (in_range ''rms'' ''aaaa'' (Date_yeardoy 2020 1) (Date_yeardoy 2020 30)) (db_rinex ?w) =
      [?r1] @ ?r2 # [?r3]"
    by code_simp
  have none: "fst ?loop = None"
    by code_simp
  then have before: "?loop = (None, snd ?loop)"
    by (simp add: prod_eq_iff)
  have mv: "Move \<in> set (rn_failing ?env ?r2)"
    by (simp add: merge_env_def fails_at_def rinex_day_def)
  then have early: "BuildPath \<in> set (rn_failing ?env ?r2) \<or> Update \<in> set (rn_failing ?env ?r2) \<or>
      Move \<in> set (rn_failing ?env ?r2) \<or> src_location ?env ''rms'' ''aaaa'' ?r2 \<notin> files (snd ?loop)"
    by blast
  from RenameStation_failure_before_move [OF dest tr queue before early]
  have main: "\<exists>ex w'. RenameStation ?env ?w ''rms'' ''aaaa'' ''rms'' ''bbbb'' (Date_yeardoy 2020 1) (Date_yeardoy 2020 30) = (Some ex, w') \<and>
      db_rinex w' = db_rinex (snd ?loop) \<and> files w' = files (snd ?loop)"
    by blast
  have rows: "map Filename (db_rinex (snd (RenameStation ?env ?w ''rms'' ''aaaa'' ''rms'' ''bbbb''
        (Date_yeardoy 2020 1) (Date_yeardoy 2020 30)))) =
     [''bbbb0010.20o'', ''aaaa0020.20d.Z'', ''aaaa0030.20d.Z'']"
    by code_simp
  have fs: "files (snd (RenameStation ?env ?w ''rms'' ''aaaa'' ''rms'' ''bbbb''
        (Date_yeardoy 2020 1) (Date_yeardoy 2020 30))) =
     {''/archive/rms/bbbb/bbbb0010.20d.Z'', ''/archive/rms/aaaa/aaaa0020.20d.Z'',
      ''/archive/rms/aaaa/aaaa0030.20d.Z''}"
    by code_simp
  from dest queue none mv main rows fs show ?thesis
    by blast
qed

section \<open>Properties of the station info transfer\<close>


















end
